theory Spec2Isabelle
  imports Complex_Main
begin

section \<open>Python values used by app.py\<close>

text \<open>
  Exceptions are values. \<open>KeyError k\<close> is a failed dictionary lookup of key \<open>k\<close>,
  \<open>IndexError\<close> an out-of-range list index, and \<open>Failure s\<close> any other exception of
  class \<open>Exception\<close> (a transport or service failure) whose \<open>str\<close> is \<open>s\<close>.
\<close>

datatype exn = KeyError string | IndexError | Failure string

text \<open>
  A Python \<open>str\<close> is a list of characters, one \<open>char\<close> per code point (code points
  below 256). \<open>py_isspace\<close> is \<open>str.isspace\<close> on one such code point: the characters
  that \<open>str.strip()\<close> removes.
\<close>

definition py_isspace :: "char \<Rightarrow> bool" where
  "py_isspace c = (of_char c \<in> {9, 10, 11, 12, 13, 28, 29, 30, 31, 32, 133, 160 :: nat})"

definition py_strip :: "string \<Rightarrow> string" where
  "py_strip s = rev (dropWhile py_isspace (rev (dropWhile py_isspace s)))"

text \<open>\<open>s.split(sep, maxsplit)\<close> for a one-character separator.\<close>

fun py_split :: "char \<Rightarrow> nat \<Rightarrow> string \<Rightarrow> string list" where
  "py_split sep 0 s = [s]"
| "py_split sep (Suc n) [] = [[]]"
| "py_split sep (Suc n) (c # cs) =
     (if c = sep then [] # py_split sep n cs
      else (case py_split sep (Suc n) cs of
              [] \<Rightarrow> [[c]]
            | p # ps \<Rightarrow> (c # p) # ps))"

text \<open>\<open>s.split(sep)\<close>: no bound on the number of splits.\<close>

definition py_split_all :: "char \<Rightarrow> string \<Rightarrow> string list" where
  "py_split_all sep s = py_split sep (length s) s"

text \<open>\<open>xs[i]\<close> for \<open>i \<ge> 0\<close>: raises IndexError out of range.\<close>

definition py_index :: "'a list \<Rightarrow> nat \<Rightarrow> exn + 'a" where
  "py_index xs i = (if i < length xs then Inr (xs ! i) else Inl IndexError)"

text \<open>\<open>str(n)\<close> for a non-negative and for any integer.\<close>

fun str_nat :: "nat \<Rightarrow> string" where
  "str_nat n = (if n < 10 then [''0123456789'' ! n]
                else str_nat (n div 10) @ [''0123456789'' ! (n mod 10)])"

declare str_nat.simps [simp del]

definition str_int :: "int \<Rightarrow> string" where
  "str_int i = (if i < 0 then ''-'' @ str_nat (nat (- i)) else str_nat (nat i))"

section \<open>Message records\<close>

text \<open>
  The \<open>timestamp\<close> entry of a record is a string: for the API source the server's
  \<open>publishedAt\<close> text, for the two local sources the \<open>isoformat()\<close> of a \<open>datetime\<close>.
  \<open>Instant t\<close> stands for the ISO text of the datetime \<open>t\<close>, counted in microseconds.
\<close>

datatype timestamp = Published string | Instant int

record message_data =
  author :: string
  message :: string
  timestamp :: timestamp
  author_channel_id :: string
  is_moderator :: bool
  is_owner :: bool
  is_verified :: bool
  message_type :: string

text \<open>\<open>pd.Timedelta(minutes=k)\<close> in microseconds.\<close>

definition minutes :: "int \<Rightarrow> int" where
  "minutes k = 60000000 * k"

text \<open>The datetimes among the timestamps of a sequence of records, in order.\<close>

definition instants :: "message_data list \<Rightarrow> int list" where
  "instants ms = concat (map (\<lambda>m. case timestamp m of Instant t \<Rightarrow> [t] | Published s \<Rightarrow> []) ms)"

section \<open>Source C: collect_chat_manual_input\<close>

text \<open>
  The form's two values are parameters: \<open>submitted\<close> (the button) and \<open>chat_input\<close> (the
  text area). So are the two readings of the environment: \<open>py_hash\<close> is the interpreter's
  \<open>hash\<close> on strings (seeded per process), and \<open>now i\<close> is what \<open>datetime.now()\<close>
  returns while line \<open>i\<close> is handled (the call is made once for each emitted record).

  \<open>manual_line\<close> is the body of the \<open>if ':' in line\<close> statement: the author and the text.
\<close>

definition manual_line :: "nat \<Rightarrow> string \<Rightarrow> exn + (string \<times> string)" where
  "manual_line i line =
     (if CHR '':'' \<in> set line then
        (let parts = py_split (CHR '':'') 1 line in
         case py_index parts 0 of
           Inl e \<Rightarrow> Inl e
         | Inr p0 \<Rightarrow>
             (case py_index parts 1 of
                Inl e \<Rightarrow> Inl e
              | Inr p1 \<Rightarrow> Inr (py_strip p0, py_strip p1)))
      else Inr (''User'' @ str_nat (i + 1), py_strip line))"

text \<open>The dictionary \<open>message_data\<close> built for line \<open>i\<close> of \<open>n\<close>.\<close>

definition manual_message_data ::
  "(string \<Rightarrow> int) \<Rightarrow> (nat \<Rightarrow> int) \<Rightarrow> nat \<Rightarrow> nat \<Rightarrow> string \<Rightarrow> string \<Rightarrow> message_data" where
  "manual_message_data py_hash now n i a msg =
     \<lparr>author = a,
      message = msg,
      timestamp = Instant (now i - minutes (int n - int i)),
      author_channel_id = ''UC'' @ str_int (py_hash a mod 1000000),
      is_moderator = False,
      is_owner = False,
      is_verified = False,
      message_type = ''textMessageEvent''\<rparr>"

text \<open>
  The loop \<open>for i, line in enumerate(lines)\<close>; \<open>n\<close> is \<open>len(lines)\<close>, \<open>i\<close> the index of
  the line at the head, \<open>messages\<close> the list built so far.
\<close>

fun manual_loop ::
  "(string \<Rightarrow> int) \<Rightarrow> (nat \<Rightarrow> int) \<Rightarrow> nat \<Rightarrow> nat \<Rightarrow> string list \<Rightarrow> message_data list
     \<Rightarrow> exn + message_data list" where
  "manual_loop py_hash now n i [] messages = Inr messages"
| "manual_loop py_hash now n i (line # rest) messages =
     (case manual_line i line of
        Inl e \<Rightarrow> Inl e
      | Inr (a, msg) \<Rightarrow>
          manual_loop py_hash now n (i + 1) rest
            (if msg \<noteq> [] then messages @ [manual_message_data py_hash now n i a msg]
             else messages))"

text \<open>
  The lines the parser walks over: \<open>chat_input.strip().split('\n')\<close>, the lines of the
  input after the whole text has lost its leading and trailing white space. The index
  \<open>i\<close> of the loop counts these lines.
\<close>

definition manual_lines :: "string \<Rightarrow> string list" where
  "manual_lines chat_input = py_split_all (CHR 0x0A) (py_strip chat_input)"

definition collect_chat_manual_input ::
  "(string \<Rightarrow> int) \<Rightarrow> (nat \<Rightarrow> int) \<Rightarrow> bool \<Rightarrow> string \<Rightarrow> exn + message_data list" where
  "collect_chat_manual_input py_hash now submitted chat_input =
     (if submitted \<and> chat_input \<noteq> [] then
        (let lines = manual_lines chat_input
         in manual_loop py_hash now (length lines) 0 lines [])
      else Inr [])"

text \<open>
  The parsing rule in the specification's words, for the line at index \<open>i\<close>: the trimmed
  text before the first colon and the trimmed text after it, or a synthesized author and
  the whole trimmed line.
\<close>

definition spec_parse_line :: "nat \<Rightarrow> string \<Rightarrow> string \<times> string" where
  "spec_parse_line i line =
     (if CHR '':'' \<in> set line then
        (py_strip (takeWhile (\<lambda>c. c \<noteq> CHR '':'') line),
         py_strip (tl (dropWhile (\<lambda>c. c \<noteq> CHR '':'') line)))
      else (''User'' @ str_nat (i + 1), py_strip line))"

text \<open>
  The specification's reading: one logical message per line of the input as entered,
  \<open>lineIndex\<close> counting those lines; \<open>spec_manual_records\<close> are the (author, text) pairs
  the parsing rule yields over them, lines of empty text discarded.
\<close>

definition spec_input_lines :: "string \<Rightarrow> string list" where
  "spec_input_lines chat_input = py_split_all (CHR 0x0A) chat_input"

definition spec_manual_records :: "string \<Rightarrow> (string \<times> string) list" where
  "spec_manual_records chat_input =
     filter (\<lambda>(a, t). t \<noteq> [])
       (map (\<lambda>(i, l). spec_parse_line i l) (enumerate 0 (spec_input_lines chat_input)))"

section \<open>More Python values: repr and str of exceptions, truthiness, dict.get\<close>

text \<open>
  \<open>repr\<close> of a \<open>str\<close>: single quotes unless the text holds a single quote and no double
  quote; the quote and the backslash are escaped, tab, newline and return are written
  \<open>\t\<close>, \<open>\n\<close>, \<open>\r\<close>, and every other unprintable code point as \<open>\xhh\<close>.
\<close>

definition hex2 :: "nat \<Rightarrow> string" where
  "hex2 n = [''0123456789abcdef'' ! (n div 16 mod 16), ''0123456789abcdef'' ! (n mod 16)]"

definition repr_char :: "char \<Rightarrow> char \<Rightarrow> string" where
  "repr_char quote c =
     (let n = (of_char c :: nat) in
      if c = quote \<or> c = CHR 0x5C then [CHR 0x5C, c]
      else if n = 9 then [CHR 0x5C, CHR ''t'']
      else if n = 10 then [CHR 0x5C, CHR ''n'']
      else if n = 13 then [CHR 0x5C, CHR ''r'']
      else if n < 32 \<or> n = 127 then [CHR 0x5C, CHR ''x''] @ hex2 n
      else if n < 127 then [c]
      else if n \<le> 160 \<or> n = 173 then [CHR 0x5C, CHR ''x''] @ hex2 n
      else [c])"

definition py_repr :: "string \<Rightarrow> string" where
  "py_repr s =
     (let quote = (if CHR 0x27 \<in> set s \<and> CHR 0x22 \<notin> set s then CHR 0x22 else CHR 0x27)
      in [quote] @ concat (map (repr_char quote) s) @ [quote])"

text \<open>\<open>str(e)\<close> of an exception.\<close>

fun exn_str :: "exn \<Rightarrow> string" where
  "exn_str (KeyError k) = py_repr k"
| "exn_str IndexError = ''list index out of range''"
| "exn_str (Failure s) = s"

text \<open>
  Truthiness of a value that is \<open>None\<close> or a string (\<open>if not x\<close>), and \<open>d.get(k, default)\<close>
  on an entry that may be absent.
\<close>

definition truthy :: "string option \<Rightarrow> bool" where
  "truthy x = (case x of None \<Rightarrow> False | Some s \<Rightarrow> s \<noteq> [])"

definition dict_get :: "'a option \<Rightarrow> 'a \<Rightarrow> 'a" where
  "dict_get entry fallback = (case entry of None \<Rightarrow> fallback | Some v \<Rightarrow> v)"

section \<open>Source B: simulate_chat_data\<close>

definition sample_users :: "string list" where
  "sample_users =
     [''StreamFan123'', ''ChatMaster'', ''LiveViewer'', ''YouTubeUser'', ''VideoLover'',
      ''ChatBot2024'', ''StreamWatcher'', ''CommentKing'', ''ViewerPro'', ''ChatExpert'']"

definition sample_messages :: "string list" where
  "sample_messages =
     [''Great stream!'', ''Love this content!'', ''When will the next stream be?'',
      ''Amazing work!'', ''Can you explain that again?'', ''First time watching!'',
      ''This is so helpful'', ''What software do you use?'',
      ''How long have you been streaming?'',
      ''Can you show that part again?'', ''Love the energy!'', ''New subscriber here!'',
      ''What's your favorite tool?'',
      ''This is exactly what I needed'',
      ''When did you start?'', ''Do you have a tutorial for this?'',
      ''Can you go slower?'', ''This is confusing'', ''Great explanation!'',
      ''What's next?'',
      ''How do I get started?'', ''Thanks for sharing!'',
      ''This is incredible'', ''Mind blown!'', ''So cool!'', ''Awesome content'',
      ''Keep it up!'',
      ''You're the best!'',
      ''Learning so much'', ''Great teacher'']"

text \<open>
  The pseudo-random generator is a parameter: \<open>rnd i\<close> holds the draws of iteration \<open>i\<close>,
  one natural number or coin for each call of \<open>random\<close>. \<open>random.choice(xs)\<close> picks the
  element at the draw modulo \<open>len(xs)\<close>, \<open>random.randint(a, b)\<close> is \<open>a\<close> plus the draw modulo
  \<open>b - a + 1\<close>, and \<open>random.random() < p\<close> is a coin (a roll).
\<close>

record draws =
  user_draw :: nat
  message_draw :: nat
  minutes_draw :: nat
  channel_draw :: nat
  moderator_roll :: bool
  moderator_choice :: nat
  verified_roll :: bool
  verified_choice :: nat

definition random_choice :: "'a list \<Rightarrow> nat \<Rightarrow> 'a" where
  "random_choice xs d = xs ! (d mod length xs)"

definition random_randint :: "int \<Rightarrow> int \<Rightarrow> nat \<Rightarrow> int" where
  "random_randint a b d = a + int d mod (b - a + 1)"

definition simulated_message_data :: "int \<Rightarrow> draws \<Rightarrow> message_data" where
  "simulated_message_data base_time d =
     \<lparr>author = random_choice sample_users (user_draw d),
      message = random_choice sample_messages (message_draw d),
      timestamp = Instant (base_time - minutes (random_randint 1 30 (minutes_draw d))),
      author_channel_id = ''UC'' @ str_int (random_randint 100000 999999 (channel_draw d)),
      is_moderator =
        (if moderator_roll d then random_choice [True, False] (moderator_choice d) else False),
      is_owner = False,
      is_verified =
        (if verified_roll d then random_choice [True, False] (verified_choice d) else False),
      message_type = ''textMessageEvent''\<rparr>"

text \<open>
  The loop \<open>for i in range(num_messages)\<close> appends one record per iteration;
  \<open>base_time\<close> is the one reading of \<open>datetime.now()\<close> before the loop.
\<close>

fun simulate_loop :: "(nat \<Rightarrow> draws) \<Rightarrow> int \<Rightarrow> nat list \<Rightarrow> message_data list \<Rightarrow> message_data list" where
  "simulate_loop rnd base_time [] messages = messages"
| "simulate_loop rnd base_time (i # rest) messages =
     simulate_loop rnd base_time rest (messages @ [simulated_message_data base_time (rnd i)])"

definition simulate_chat_data :: "(nat \<Rightarrow> draws) \<Rightarrow> int \<Rightarrow> int \<Rightarrow> message_data list" where
  "simulate_chat_data rnd base_time num_messages =
     simulate_loop rnd base_time [0..<nat num_messages] []"

section \<open>Source A: collect_chat_with_api\<close>

text \<open>
  The JSON of the remote service, with every entry the code reads through \<open>.get\<close> or
  \<open>in\<close> optional, and the two entries it reads through \<open>item[...]\<close> optional too (their
  absence is a KeyError).
\<close>

record live_details =
  activeLiveChatId :: "string option"

record video_item =
  liveStreamingDetails :: "live_details option"

record videos_data =
  video_items :: "video_item list option"

record chat_snippet =
  displayMessage :: "string option"
  publishedAt :: "string option"
  snippet_type :: "string option"

record chat_author =
  displayName :: "string option"
  channelId :: "string option"
  isChatModerator :: "bool option"
  isChatOwner :: "bool option"
  isVerified :: "bool option"

record chat_item =
  snippet :: "chat_snippet option"
  authorDetails :: "chat_author option"

record chat_page =
  items :: "chat_item list option"
  nextPageToken :: "string option"

record page_request =
  liveChatId :: string
  part :: string
  key :: string
  maxResults :: int
  pageToken :: "string option"

text \<open>
  The remote service is a parameter. \<open>videos api_key video_id\<close> is the outcome of the
  lookup request, \<open>live_chat k req\<close> that of the page request \<open>req\<close> sent as the \<open>k\<close>-th
  one of the loop (counted from 0): \<open>Inl e\<close> when \<open>requests.get\<close> or \<open>response.json()\<close>
  raises \<open>e\<close>.
\<close>

type_synonym videos_service = "string \<Rightarrow> string \<Rightarrow> exn + videos_data"
type_synonym live_chat_service = "nat \<Rightarrow> page_request \<Rightarrow> exn + chat_page"

text \<open>
  \<open>get_live_chat_id\<close> returns the messages it shows with \<open>st.error\<close> and the chat id (or
  \<open>None\<close>).
\<close>

definition get_live_chat_id ::
  "string option \<Rightarrow> videos_service \<Rightarrow> string \<Rightarrow> string list \<times> string option" where
  "get_live_chat_id youtube_api_key videos video_id =
     (if \<not> truthy youtube_api_key then ([], None)
      else
        (case videos (the youtube_api_key) video_id of
           Inl e \<Rightarrow> ([''Error getting live chat ID: '' @ exn_str e], None)
         | Inr data \<Rightarrow>
             (case video_items data of
                None \<Rightarrow> ([], None)
              | Some [] \<Rightarrow> ([], None)
              | Some (first # others) \<Rightarrow>
                  ([], activeLiveChatId
                         (dict_get (liveStreamingDetails first) \<lparr>activeLiveChatId = None\<rparr>)))))"

text \<open>The dictionary \<open>message_data\<close> built from one item of a page.\<close>

definition item_message_data :: "chat_item \<Rightarrow> exn + message_data" where
  "item_message_data item =
     (case snippet item of
        None \<Rightarrow> Inl (KeyError ''snippet'')
      | Some sn \<Rightarrow>
          (case authorDetails item of
             None \<Rightarrow> Inl (KeyError ''authorDetails'')
           | Some au \<Rightarrow>
               Inr \<lparr>author = dict_get (displayName au) ''Unknown'',
                    message = dict_get (displayMessage sn) [],
                    timestamp = Published (dict_get (publishedAt sn) []),
                    author_channel_id = dict_get (channelId au) [],
                    is_moderator = dict_get (isChatModerator au) False,
                    is_owner = dict_get (isChatOwner au) False,
                    is_verified = dict_get (isVerified au) False,
                    message_type = dict_get (snippet_type sn) ''textMessageEvent''\<rparr>))"

text \<open>
  The loop \<open>for item in data['items']\<close>: the records appended so far stay in \<open>messages\<close>
  when an item raises.
\<close>

fun append_items :: "chat_item list \<Rightarrow> message_data list \<Rightarrow> message_data list \<times> exn option" where
  "append_items [] messages = (messages, None)"
| "append_items (item # rest) messages =
     (case item_message_data item of
        Inl e \<Rightarrow> (messages, Some e)
      | Inr m \<Rightarrow> append_items rest (messages @ [m]))"

text \<open>
  The state of the \<open>while\<close> loop: the two variables of the source, the number of page
  requests sent so far, and the exception that ended the loop, if one did.
\<close>

record collector =
  messages :: "message_data list"
  next_page_token :: "string option"
  requests :: nat
  raised :: "exn option"

text \<open>
  The \<open>while\<close> loop inside \<open>try\<close>. It may run forever (a service that keeps answering
  with empty pages and a token), so the result is optional: \<open>None\<close> is not returning.
  The progress bar, the status text and \<open>time.sleep(1)\<close> are left out.
\<close>

partial_function (option) page_loop ::
  "live_chat_service \<Rightarrow> string \<Rightarrow> string \<Rightarrow> int \<Rightarrow> collector \<Rightarrow> collector option" where
  "page_loop live_chat chat_id api_key max_messages st =
     (if int (length (messages st)) < max_messages then
        (case live_chat (requests st)
                \<lparr>liveChatId = chat_id,
                 part = ''snippet,authorDetails'',
                 key = api_key,
                 maxResults = min 200 (max_messages - int (length (messages st))),
                 pageToken = (if truthy (next_page_token st) then next_page_token st else None)\<rparr> of
           Inl e \<Rightarrow> Some (st\<lparr>requests := Suc (requests st), raised := Some e\<rparr>)
         | Inr data \<Rightarrow>
             (case items data of
                None \<Rightarrow> Some (st\<lparr>requests := Suc (requests st)\<rparr>)
              | Some its \<Rightarrow>
                  (case append_items its (messages st) of
                     (ms, Some e) \<Rightarrow>
                       Some (st\<lparr>messages := ms, requests := Suc (requests st), raised := Some e\<rparr>)
                   | (ms, None) \<Rightarrow>
                       (if truthy (nextPageToken data) then
                          page_loop live_chat chat_id api_key max_messages
                            (st\<lparr>messages := ms, next_page_token := nextPageToken data,
                                requests := Suc (requests st)\<rparr>)
                        else
                          Some (st\<lparr>messages := ms, next_page_token := nextPageToken data,
                                  requests := Suc (requests st)\<rparr>)))))
      else Some st)"

text \<open>
  What \<open>collect_chat_with_api\<close> hands back: the list it returns, the messages it shows
  with \<open>st.error\<close>, and the number of page requests it sent.
\<close>

record collection =
  collected :: "message_data list"
  errors :: "string list"
  page_requests :: nat

definition collect_chat_with_api ::
  "string option \<Rightarrow> videos_service \<Rightarrow> live_chat_service \<Rightarrow> string \<Rightarrow> int \<Rightarrow> collection option" where
  "collect_chat_with_api youtube_api_key videos live_chat video_id max_messages =
     (if \<not> truthy youtube_api_key then
        Some \<lparr>collected = [],
              errors = [''YouTube API key required for this method. Please add YOUTUBE_API_KEY to your .env file''],
              page_requests = 0\<rparr>
      else
        (case get_live_chat_id youtube_api_key videos video_id of
           (shown, chat_id) \<Rightarrow>
             if \<not> truthy chat_id then
               Some \<lparr>collected = [],
                     errors = shown @ [''Could not get live chat ID. Stream may not be live or chat may be disabled.''],
                     page_requests = 0\<rparr>
             else
               (case page_loop live_chat (the chat_id) (the youtube_api_key) max_messages
                       \<lparr>messages = [], next_page_token = None, requests = 0, raised = None\<rparr> of
                  None \<Rightarrow> None
                | Some st \<Rightarrow>
                    Some \<lparr>collected = messages st,
                          errors = shown @
                            (case raised st of
                               None \<Rightarrow> []
                             | Some e \<Rightarrow> [''Error collecting chat: '' @ exn_str e]),
                          page_requests = requests st\<rparr>)))"

section \<open>Statistics: generate_chat_statistics\<close>

text \<open>
  The pandas operations on one column, for a column without missing values.
  \<open>nunique\<close> counts the distinct values. \<open>unique\<close> lists them in order of first
  appearance, which is the order in which \<open>value_counts\<close> meets them; \<open>value_counts\<close>
  pairs each with its number of occurrences and sorts the pairs by descending count
  (the order pandas documents), pairs of equal count keeping their order (its sort is
  taken to be stable). \<open>head n\<close> keeps the first \<open>n\<close> rows,
  \<open>sum\<close> of a column of booleans counts the true ones, and \<open>mean\<close> of a column of
  integers is their sum over their number (the source's float is the nearest double to
  this rational).
\<close>

definition nunique :: "'a list \<Rightarrow> nat" where
  "nunique xs = card (set xs)"

fun unique :: "'a list \<Rightarrow> 'a list" where
  "unique [] = []"
| "unique (x # xs) = x # filter (\<lambda>y. y \<noteq> x) (unique xs)"

definition value_counts :: "'a list \<Rightarrow> ('a \<times> nat) list" where
  "value_counts xs =
     sort_key (\<lambda>(v, c). - int c) (map (\<lambda>v. (v, count_list xs v)) (unique xs))"

definition head :: "nat \<Rightarrow> 'a list \<Rightarrow> 'a list" where
  "head n rows = take n rows"

definition bool_sum :: "bool list \<Rightarrow> int" where
  "bool_sum bs = int (length (filter (\<lambda>b. b) bs))"

definition mean :: "nat list \<Rightarrow> rat" where
  "mean ns = of_nat (sum_list ns) / of_nat (length ns)"

text \<open>
  The values of the statistics dictionary, and the dictionary as the list of its
  entries in insertion order (\<open>{}\<close> is \<open>[]\<close>).
\<close>

datatype stat_value = IntVal int | FloatVal rat | DictVal "(string \<times> nat) list"

definition generate_chat_statistics :: "message_data list \<Rightarrow> (string \<times> stat_value) list" where
  "generate_chat_statistics msgs =
     (if msgs = [] then []
      else
        [(''total_messages'', IntVal (int (length msgs))),
         (''unique_users'', IntVal (int (nunique (map author msgs)))),
         (''messages_per_user'',
            if nunique (map author msgs) > 0
            then FloatVal (of_nat (length msgs) / of_nat (nunique (map author msgs)))
            else IntVal 0),
         (''moderator_messages'', IntVal (bool_sum (map is_moderator msgs))),
         (''owner_messages'', IntVal (bool_sum (map is_owner msgs))),
         (''verified_messages'', IntVal (bool_sum (map is_verified msgs))),
         (''top_chatters'', DictVal (head 10 (value_counts (map author msgs)))),
         (''message_length_avg'',
            if length msgs > 0
            then FloatVal (mean (map (\<lambda>m. length (message m)) msgs))
            else IntVal 0)])"

text \<open>
  The entry of key \<open>k\<close> as an optional value (\<open>None\<close> when the key is absent), and the
  subscript \<open>stats[k]\<close> as the callers write it, which raises KeyError on an absent key.
\<close>

definition stat :: "(string \<times> stat_value) list \<Rightarrow> string \<Rightarrow> stat_value option" where
  "stat stats k = map_of stats k"


text \<open>
  The specification's \<open>uniqueAuthors\<close>, in its words: the number of distinct author
  ids, a record without id (the empty id) counted by its display name.
\<close>

definition spec_unique_authors :: "message_data list \<Rightarrow> nat" where
  "spec_unique_authors msgs =
     card (set (map (\<lambda>m. if author_channel_id m = [] then author m else author_channel_id m) msgs))"


section \<open>Insight generator: analyze_with_claude\<close>

text \<open>\<open>sep.join(xs)\<close> and the slice \<open>xs[-n:]\<close> for \<open>n > 0\<close>.\<close>

fun py_join :: "string \<Rightarrow> string list \<Rightarrow> string" where
  "py_join sep [] = []"
| "py_join sep [x] = x"
| "py_join sep (x # y # ys) = x @ sep @ py_join sep (y # ys)"

definition last_n :: "nat \<Rightarrow> 'a list \<Rightarrow> 'a list" where
  "last_n n xs = drop (length xs - n) xs"

definition chat_text_of :: "message_data list \<Rightarrow> string" where
  "chat_text_of msgs =
     py_join [CHR 0x0A] (map (\<lambda>msg. author msg @ '': '' @ message msg) (last_n 300 msgs))"

text \<open>The four f-strings of the dictionary \<open>prompts\<close>.\<close>

definition prompt_comprehensive :: "string \<Rightarrow> string" where
  "prompt_comprehensive chat_text =
     ''\<newline>'' @
     ''            Please analyze this YouTube live chat data and provide comprehensive insights:\<newline>'' @
     ''\<newline>'' @
     ''            **Analysis Required:**\<newline>'' @
     ''            1. **Key Themes & Topics**: What are the main subjects being discussed?\<newline>'' @
     ''            2. **Most Frequent Questions**: What questions do viewers ask most often?\<newline>'' @
     ''            3. **Sentiment & Mood**: What's the overall emotional tone and audience engagement level?\<newline>'' @
     ''            4. **Notable Moments**: Any significant reactions, trending topics, or viral moments?\<newline>'' @
     ''            5. **Community Engagement**: How is the audience interacting? Are there power users, moderators active?\<newline>'' @
     ''            6. **Content Feedback**: What do viewers think about the content being streamed?\<newline>'' @
     ''\<newline>'' @
     ''            **Chat Messages:**\<newline>'' @
     ''            '' @
     chat_text @
     ''\<newline>'' @
     ''\<newline>'' @
     ''            Please provide detailed insights with specific examples from the chat where relevant.\<newline>'' @
     ''            ''"

definition prompt_questions :: "string \<Rightarrow> string" where
  "prompt_questions chat_text =
     ''\<newline>'' @
     ''            Please extract and analyze all the questions asked by viewers in this YouTube live chat.\<newline>'' @
     ''\<newline>'' @
     ''            **Tasks:**\<newline>'' @
     ''            1. **Identify Questions**: Find all direct and indirect questions\<newline>'' @
     ''            2. **Categorize by Topic**: Group similar questions together\<newline>'' @
     ''            3. **Frequency Analysis**: Which questions or question types appear most often?\<newline>'' @
     ''            4. **Answer Status**: Which questions seem answered vs unanswered?\<newline>'' @
     ''            5. **Question Quality**: Are questions technical, casual, or seeking clarification?\<newline>'' @
     ''\<newline>'' @
     ''            **Chat Messages:**\<newline>'' @
     ''            '' @
     chat_text @
     ''\<newline>'' @
     ''\<newline>'' @
     ''            Format your response with clear categories and specific examples.\<newline>'' @
     ''            ''"

definition prompt_sentiment :: "string \<Rightarrow> string" where
  "prompt_sentiment chat_text =
     ''\<newline>'' @
     ''            Please analyze the emotional tone and sentiment of this YouTube live chat.\<newline>'' @
     ''\<newline>'' @
     ''            **Analysis Focus:**\<newline>'' @
     ''            1. **Overall Sentiment**: Positive, negative, or neutral tone?\<newline>'' @
     ''            2. **Emotional Patterns**: Excitement, frustration, confusion, appreciation?\<newline>'' @
     ''            3. **Engagement Level**: How actively engaged is the audience?\<newline>'' @
     ''            4. **Community Vibe**: Supportive, critical, or mixed?\<newline>'' @
     ''            5. **Mood Changes**: Any shifts in sentiment during the chat?\<newline>'' @
     ''            6. **Standout Reactions**: Notable emotional responses or reactions?\<newline>'' @
     ''\<newline>'' @
     ''            **Chat Messages:**\<newline>'' @
     ''            '' @
     chat_text @
     ''\<newline>'' @
     ''\<newline>'' @
     ''            Provide specific examples and explain the reasoning behind your sentiment analysis.\<newline>'' @
     ''            ''"

definition prompt_themes :: "string \<Rightarrow> string" where
  "prompt_themes chat_text =
     ''\<newline>'' @
     ''            Please identify and analyze the main themes and topics discussed in this YouTube live chat.\<newline>'' @
     ''\<newline>'' @
     ''            **Analysis Goals:**\<newline>'' @
     ''            1. **Primary Themes**: What are the 3-5 most discussed topics?\<newline>'' @
     ''            2. **Trending Topics**: What subjects gained momentum during the chat?\<newline>'' @
     ''            3. **Recurring Discussions**: What topics keep coming up repeatedly?\<newline>'' @
     ''            4. **Topic Evolution**: How do conversations shift and develop?\<newline>'' @
     ''            5. **Audience Interests**: What does the chat reveal about viewer preferences?\<newline>'' @
     ''            6. **Content Alignment**: How well do chat topics align with the stream content?\<newline>'' @
     ''\<newline>'' @
     ''            **Chat Messages:**\<newline>'' @
     ''            '' @
     chat_text @
     ''\<newline>'' @
     ''\<newline>'' @
     ''            Organize your response by theme and provide supporting evidence from the chat.\<newline>'' @
     ''            ''"

text \<open>The dictionary \<open>prompts\<close>; \<open>prompts[k]\<close> raises KeyError on any other key.\<close>

definition prompts :: "string \<Rightarrow> (string \<times> string) list" where
  "prompts chat_text =
     [(''comprehensive'', prompt_comprehensive chat_text),
      (''questions'', prompt_questions chat_text),
      (''sentiment'', prompt_sentiment chat_text),
      (''themes'', prompt_themes chat_text)]"

definition prompts_lookup :: "string \<Rightarrow> string \<Rightarrow> exn + string" where
  "prompts_lookup chat_text k =
     (case map_of (prompts chat_text) k of
        None \<Rightarrow> Inl (KeyError k)
      | Some p \<Rightarrow> Inr p)"

text \<open>
  The completion service is a parameter: \<open>create req\<close> is the outcome of
  \<open>claude_client.messages.create\<close> on the request \<open>req\<close>, \<open>Inl e\<close> when it raises \<open>e\<close>,
  and otherwise the texts of the blocks of \<open>response.content\<close>.
\<close>

record completion_request =
  model :: string
  max_tokens :: int
  temperature :: rat
  system_prompt :: string
  user_content :: string

type_synonym completion_service = "completion_request \<Rightarrow> exn + string list"

definition completion_request_of :: "string \<Rightarrow> completion_request" where
  "completion_request_of prompt =
     \<lparr>model = ''claude-sonnet-4-20250514'',
      max_tokens = 1024,
      temperature = 3 / 10,
      system_prompt = ''You are an expert social media analyst specializing in live chat analysis. You provide detailed, insightful, and actionable analysis of online community interactions. Your analysis is always backed by specific examples and evidence from the data.'',
      user_content = prompt\<rparr>"

text \<open>
  \<open>try: body except Exception as e: handler e\<close>, on a body whose outcome is a value or
  a raised exception.
\<close>

definition try_except :: "exn + 'a \<Rightarrow> (exn \<Rightarrow> exn + 'a) \<Rightarrow> exn + 'a" where
  "try_except body handler = (case body of Inl e \<Rightarrow> handler e | Inr v \<Rightarrow> Inr v)"

text \<open>
  What a call of \<open>analyze_with_claude\<close> does: the string it returns or the exception it
  raises, and the requests it sent to the completion service. The arguments of \<open>create\<close>
  are evaluated before the call, so a failed \<open>prompts[analysis_type]\<close> sends nothing.
\<close>

record analysis =
  outcome :: "exn + string"
  sent :: "completion_request list"

definition analyze_with_claude ::
  "completion_service \<Rightarrow> message_data list \<Rightarrow> string \<Rightarrow> analysis" where
  "analyze_with_claude create msgs analysis_type =
     (if msgs = [] then \<lparr>outcome = Inr ''No messages to analyze'', sent = []\<rparr>
      else
        (let chat_text = chat_text_of msgs;
             looked_up = prompts_lookup chat_text analysis_type
         in \<lparr>outcome =
               try_except
                 (case looked_up of
                    Inl e \<Rightarrow> Inl e
                  | Inr prompt \<Rightarrow>
                      (case create (completion_request_of prompt) of
                         Inl e \<Rightarrow> Inl e
                       | Inr content \<Rightarrow> py_index content 0))
                 (\<lambda>e. Inr (''Error analyzing chat with Claude: '' @ exn_str e)),
             sent =
               (case looked_up of
                  Inl e \<Rightarrow> []
                | Inr prompt \<Rightarrow> [completion_request_of prompt])\<rparr>))"

section \<open>A record for concrete inputs\<close>

text \<open>A plain text message with the given author, channel id and text.\<close>

definition example_message :: "string \<Rightarrow> string \<Rightarrow> string \<Rightarrow> message_data" where
  "example_message a i t =
     \<lparr>author = a, message = t, timestamp = Published ''2024-01-01T00:00:00Z'',
      author_channel_id = i, is_moderator = False, is_owner = False, is_verified = False,
      message_type = ''textMessageEvent''\<rparr>"

section \<open>Remote services for concrete inputs\<close>

text \<open>A lookup service that answers every request with the live chat \<open>chat1\<close>.\<close>

definition example_videos :: videos_service where
  "example_videos api_key video_id =
     Inr \<lparr>video_items =
            Some [\<lparr>liveStreamingDetails = Some \<lparr>activeLiveChatId = Some ''chat1''\<rparr>\<rparr>]\<rparr>"

text \<open>
  The \<open>k\<close>-th message of a chat, as an item of a page; and an item without
  \<open>displayMessage\<close>, as the service reports an event that carries no text.
\<close>

definition mock_item :: "nat \<Rightarrow> chat_item" where
  "mock_item k =
     \<lparr>snippet = Some \<lparr>displayMessage = Some (''message '' @ str_nat k),
                       publishedAt = Some ''2024-01-01T00:00:00Z'',
                       snippet_type = Some ''textMessageEvent''\<rparr>,
      authorDetails = Some \<lparr>displayName = Some (''viewer'' @ str_nat (k mod 7)),
                             channelId = Some (''UC'' @ str_nat (k mod 7)),
                             isChatModerator = Some False,
                             isChatOwner = Some False,
                             isVerified = Some False\<rparr>\<rparr>"

definition silent_item :: chat_item where
  "silent_item =
     \<lparr>snippet = Some \<lparr>displayMessage = None,
                       publishedAt = Some ''2024-01-01T00:00:00Z'',
                       snippet_type = Some ''newSponsorEvent''\<rparr>,
      authorDetails = Some \<lparr>displayName = Some ''Ann'',
                             channelId = Some ''UC1'',
                             isChatModerator = None,
                             isChatOwner = None,
                             isVerified = None\<rparr>\<rparr>"

text \<open>A page service that answers every request with the same last page.\<close>

definition one_page :: "chat_item list \<Rightarrow> live_chat_service" where
  "one_page its k req = Inr \<lparr>items = Some its, nextPageToken = None\<rparr>"

text \<open>
  Page services over a chat of \<open>stock\<close> messages, served from the position the
  continuation token names; a page carries a token unless it ends the chat.
  \<open>page_size\<close> says how many items a full page holds for the \<open>maxResults\<close> asked for.

  \<open>fixed_page_source\<close> is the mocked page source of the page-loop test: its pages are
  of size 200 whatever the request asks for, until the last page.
  \<open>capped_page_source\<close> is a service that also cuts every page to the \<open>maxResults\<close> of
  the request.
\<close>

definition mock_token :: "nat \<Rightarrow> string" where
  "mock_token n = replicate n (CHR ''t'')"

definition paged_source :: "(int \<Rightarrow> nat) \<Rightarrow> nat \<Rightarrow> live_chat_service" where
  "paged_source page_size stock k req =
     (let start = (case pageToken req of None \<Rightarrow> 0 | Some t \<Rightarrow> length t);
          size = min (page_size (maxResults req)) (stock - start)
      in Inr \<lparr>items = Some (map mock_item [start..<start + size]),
              nextPageToken =
                (if start + size < stock then Some (mock_token (start + size)) else None)\<rparr>)"

definition fixed_page_source :: "nat \<Rightarrow> live_chat_service" where
  "fixed_page_source stock = paged_source (\<lambda>max_results. 200) stock"

definition capped_page_source :: "nat \<Rightarrow> live_chat_service" where
  "capped_page_source stock = paged_source (\<lambda>max_results. min 200 (nat max_results)) stock"

text \<open>
  Two properties a page service may have: no page holds more items than the request's
  \<open>maxResults\<close> (none for a \<open>maxResults\<close> below 1); and no page that answers a
  request for at least one item and carries a continuation token is empty.
\<close>

definition honours_maxResults :: "live_chat_service \<Rightarrow> bool" where
  "honours_maxResults live_chat =
     (\<forall>k req page its. live_chat k req = Inr page \<longrightarrow> items page = Some its \<longrightarrow>
        int (length its) \<le> max 0 (maxResults req))"

definition no_empty_page_with_token :: "live_chat_service \<Rightarrow> bool" where
  "no_empty_page_with_token live_chat =
     (\<forall>k req page its. 1 \<le> maxResults req \<longrightarrow> live_chat k req = Inr page \<longrightarrow>
        items page = Some its \<longrightarrow> truthy (nextPageToken page) \<longrightarrow> its \<noteq> [])"

section \<open>Verified properties\<close>

subsection \<open>Source C: the parsing rule\<close>

lemma py_split_once:
  "sep \<in> set s \<Longrightarrow>
   py_split sep (Suc 0) s = [takeWhile (\<lambda>c. c \<noteq> sep) s, tl (dropWhile (\<lambda>c. c \<noteq> sep) s)]"
  by (induction s) auto

lemma manual_line_spec: "manual_line i line = Inr (spec_parse_line i line)"
  by (simp add: manual_line_def spec_parse_line_def py_split_once py_index_def)

lemma manual_loop_eq:
  "manual_loop py_hash now n i ls acc =
     Inr (acc @ map (\<lambda>(j, l). manual_message_data py_hash now n j
                       (fst (spec_parse_line j l)) (snd (spec_parse_line j l)))
                  (filter (\<lambda>(j, l). snd (spec_parse_line j l) \<noteq> []) (enumerate i ls)))"
  by (induction ls arbitrary: i acc) (auto simp: manual_line_spec split: prod.splits)

lemma collect_chat_manual_input_eq:
  "collect_chat_manual_input py_hash now True chat_input =
     Inr (map (\<lambda>(j, l). manual_message_data py_hash now (length (manual_lines chat_input)) j
                       (fst (spec_parse_line j l)) (snd (spec_parse_line j l)))
            (filter (\<lambda>(j, l). snd (spec_parse_line j l) \<noteq> [])
               (enumerate 0 (manual_lines chat_input))))"
proof (cases "chat_input = []")
  case True
  have "manual_lines [] = [[]]"
    by (simp add: manual_lines_def py_split_all_def py_strip_def)
  moreover have "snd (spec_parse_line 0 []) = []"
    by (simp add: spec_parse_line_def py_strip_def)
  ultimately show ?thesis
    using True by (simp add: collect_chat_manual_input_def)
next
  case False
  then show ?thesis
    by (simp add: collect_chat_manual_input_def manual_loop_eq manual_lines_def Let_def)
qed

lemma example_lines:
  "manual_lines ''Alice: hello\<newline>Bob: hi there\<newline>noColonLine'' =
     [''Alice: hello'', ''Bob: hi there'', ''noColonLine'']"
  by code_simp

lemma example_parse:
  "spec_parse_line 0 ''Alice: hello'' = (''Alice'', ''hello'')"
  "spec_parse_line (Suc 0) ''Bob: hi there'' = (''Bob'', ''hi there'')"
  "spec_parse_line (Suc (Suc 0)) ''noColonLine'' = (''User3'', ''noColonLine'')"
  by code_simp+

text \<open>
  Claim C5 fails as stated. The parser counts the lines of the stripped input: after two
  leading blank lines a line without colon gets the author \<open>User1\<close>, where the rule over
  the lines of the input gives \<open>User3\<close>. And the timestamps of the example are not
  increasing when the clock steps back after the first line.
\<close>

theorem manual_parsing_counterexample:
  "(case collect_chat_manual_input (\<lambda>a. 0) (\<lambda>i. 600000000) True
           ''\<newline>\<newline>noColonLine'' of
      Inl e \<Rightarrow> []
    | Inr rs \<Rightarrow> map (\<lambda>m. (author m, message m)) rs) = [(''User1'', ''noColonLine'')] \<and>
   spec_manual_records ''\<newline>\<newline>noColonLine'' = [(''User3'', ''noColonLine'')] \<and>
   (case collect_chat_manual_input (\<lambda>a. 0) (\<lambda>i. if i = 0 then 10000000000 else 0) True
           ''Alice: hello\<newline>Bob: hi there\<newline>noColonLine'' of
      Inl e \<Rightarrow> []
    | Inr rs \<Rightarrow> instants rs) = [9820000000, - 120000000, - 60000000]"
  by code_simp

text \<open>
  Claim C5, amended. Manual parsing always returns (no exception). It strips the whole
  input and splits it into lines, and the (author, text) pairs of its records are, in
  line order, those of the parsing rule (split on the first colon, both sides trimmed;
  \<open>User<i+1>\<close> for a line without colon, \<open>i\<close> the index among these lines) for the lines
  whose trimmed text is not empty. On the input
  \<open>"Alice: hello\nBob: hi there\nnoColonLine"\<close> it yields exactly (Alice, hello),
  (Bob, hi there), (User3, noColonLine), with strictly increasing timestamps whenever
  the clock does not run backwards.
\<close>

theorem manual_parsing_rule:
  "(\<exists>rs. collect_chat_manual_input py_hash now True chat_input = Inr rs \<and>
      map (\<lambda>m. (author m, message m)) rs =
        filter (\<lambda>(a, t). t \<noteq> [])
          (map (\<lambda>(i, l). spec_parse_line i l) (enumerate 0 (manual_lines chat_input))))
   \<and> ((\<forall>i j. i \<le> j \<longrightarrow> now i \<le> now j) \<longrightarrow>
       (\<exists>rs. collect_chat_manual_input py_hash now True
                ''Alice: hello\<newline>Bob: hi there\<newline>noColonLine'' = Inr rs \<and>
          map (\<lambda>m. (author m, message m)) rs =
            [(''Alice'', ''hello''), (''Bob'', ''hi there''), (''User3'', ''noColonLine'')] \<and>
          length (instants rs) = 3 \<and> sorted_wrt (<) (instants rs)))"
proof (intro conjI impI)
  have "map (\<lambda>m. (author m, message m))
          (map (\<lambda>(j, l). manual_message_data py_hash now n j
                       (fst (spec_parse_line j l)) (snd (spec_parse_line j l)))
            (filter (\<lambda>(j, l). snd (spec_parse_line j l) \<noteq> []) xs)) =
        filter (\<lambda>(a, t). t \<noteq> []) (map (\<lambda>(i, l). spec_parse_line i l) xs)" for n xs
    by (induction xs) (auto simp: manual_message_data_def split: prod.splits)
  then show "\<exists>rs. collect_chat_manual_input py_hash now True chat_input = Inr rs \<and>
      map (\<lambda>m. (author m, message m)) rs =
        filter (\<lambda>(a, t). t \<noteq> [])
          (map (\<lambda>(i, l). spec_parse_line i l) (enumerate 0 (manual_lines chat_input)))"
    by (simp add: collect_chat_manual_input_eq)
next
  assume mono: "\<forall>i j. i \<le> j \<longrightarrow> now i \<le> now j"
  have "now 0 \<le> now (Suc 0)" "now (Suc 0) \<le> now (Suc (Suc 0))"
    using mono by simp_all
  then show "\<exists>rs. collect_chat_manual_input py_hash now True
                ''Alice: hello\<newline>Bob: hi there\<newline>noColonLine'' = Inr rs \<and>
          map (\<lambda>m. (author m, message m)) rs =
            [(''Alice'', ''hello''), (''Bob'', ''hi there''), (''User3'', ''noColonLine'')] \<and>
          length (instants rs) = 3 \<and> sorted_wrt (<) (instants rs)"
    by (simp add: collect_chat_manual_input_eq example_lines enumerate_eq_zip upt_rec
        example_parse manual_message_data_def instants_def minutes_def)
qed

text \<open>The rule at a concrete clock and hash.\<close>

theorem manual_parsing_rule_witness:
  "\<exists>rs. collect_chat_manual_input (\<lambda>a. int (length a)) (\<lambda>i. 1000 + int i) True
                ''Alice: hello\<newline>Bob: hi there\<newline>noColonLine'' = Inr rs \<and>
          map (\<lambda>m. (author m, message m)) rs =
            [(''Alice'', ''hello''), (''Bob'', ''hi there''), (''User3'', ''noColonLine'')] \<and>
          length (instants rs) = 3 \<and> sorted_wrt (<) (instants rs)"
  using manual_parsing_rule [of "\<lambda>a. int (length a)" "\<lambda>i. 1000 + int i" "''x''"]
  by simp

subsection \<open>Statistics: the empty input and the fields\<close>

lemma example_message_sel [simp]:
  "author (example_message a i t) = a"
  "message (example_message a i t) = t"
  "author_channel_id (example_message a i t) = i"
  by (simp_all add: example_message_def)

lemma nunique_pos: "xs \<noteq> [] \<Longrightarrow> 0 < nunique xs"
  by (simp add: nunique_def card_gt_0_iff)

text \<open>
  Claim C1 fails as stated: on the empty sequence \<open>generate_chat_statistics\<close> takes its
  early return \<open>{}\<close>, so none of the fields the claim lists is present.
\<close>

theorem empty_statistics_counterexample:
  "stat (generate_chat_statistics []) ''total_messages'' = None \<and>
   stat (generate_chat_statistics []) ''unique_users'' = None \<and>
   stat (generate_chat_statistics []) ''messages_per_user'' = None \<and>
   stat (generate_chat_statistics []) ''message_length_avg'' = None \<and>
   stat (generate_chat_statistics []) ''top_chatters'' = None"
  by (simp add: generate_chat_statistics_def stat_def)

text \<open>
  Claim C1, amended. For the empty sequence the aggregator returns the empty mapping;
  for every non-empty sequence it returns the eight fields in their order, each defined:
  the length, the number of distinct authors, their quotient, the mean text length and
  the first ten rows of the author counts.
\<close>

theorem statistics_fields:
  "generate_chat_statistics [] = [] \<and>
   (msgs \<noteq> [] \<longrightarrow>
      map fst (generate_chat_statistics msgs) =
        [''total_messages'', ''unique_users'', ''messages_per_user'', ''moderator_messages'',
         ''owner_messages'', ''verified_messages'', ''top_chatters'', ''message_length_avg''] \<and>
      stat (generate_chat_statistics msgs) ''total_messages'' = Some (IntVal (int (length msgs))) \<and>
      stat (generate_chat_statistics msgs) ''unique_users'' =
        Some (IntVal (int (nunique (map author msgs)))) \<and>
      stat (generate_chat_statistics msgs) ''messages_per_user'' =
        Some (FloatVal (of_nat (length msgs) / of_nat (nunique (map author msgs)))) \<and>
      stat (generate_chat_statistics msgs) ''message_length_avg'' =
        Some (FloatVal (mean (map (\<lambda>m. length (message m)) msgs))) \<and>
      stat (generate_chat_statistics msgs) ''top_chatters'' =
        Some (DictVal (head 10 (value_counts (map author msgs)))))"
  by (simp add: generate_chat_statistics_def stat_def nunique_pos)

theorem statistics_fields_witness:
  "stat (generate_chat_statistics [example_message ''Ann'' ''UC1'' ''hello'']) ''total_messages'' =
     Some (IntVal 1)"
  using statistics_fields [of "[example_message ''Ann'' ''UC1'' ''hello'']"]
  by simp

subsection \<open>Statistics: unique users\<close>

text \<open>
  Claim C4 fails as stated: two records of one display name with two channel ids count
  as one user, where the number of distinct ids is two.
\<close>

theorem unique_users_counterexample:
  "stat (generate_chat_statistics
           [example_message ''Bob'' ''UC1'' ''hi'', example_message ''Bob'' ''UC2'' ''yo''])
     ''unique_users'' = Some (IntVal 1) \<and>
   spec_unique_authors
     [example_message ''Bob'' ''UC1'' ''hi'', example_message ''Bob'' ''UC2'' ''yo''] = 2"
  by (simp add: generate_chat_statistics_def stat_def nunique_def spec_unique_authors_def)

text \<open>
  Claim C4, amended. For every non-empty sequence, \<open>unique_users\<close> is the number of
  distinct author display names; the channel id is not consulted.
\<close>

theorem unique_users_counts_names:
  "msgs \<noteq> [] \<Longrightarrow>
   stat (generate_chat_statistics msgs) ''unique_users'' =
     Some (IntVal (int (card (author ` set msgs))))"
  by (simp add: generate_chat_statistics_def stat_def nunique_def)

theorem unique_users_counts_names_witness:
  "stat (generate_chat_statistics
           [example_message ''Bob'' ''UC1'' ''hi'', example_message ''Ann'' ''UC1'' ''yo''])
     ''unique_users'' = Some (IntVal 2)"
  using unique_users_counts_names
    [of "[example_message ''Bob'' ''UC1'' ''hi'', example_message ''Ann'' ''UC1'' ''yo'']"]
  by simp

subsection \<open>Insight generator: failures become text\<close>

lemma prompts_lookup_valid:
  "k \<in> {''comprehensive'', ''questions'', ''sentiment'', ''themes''} \<Longrightarrow>
   \<exists>p. prompts_lookup ct k = Inr p"
  by (auto simp: prompts_lookup_def prompts_def)

lemma prompts_lookup_invalid:
  "k \<notin> {''comprehensive'', ''questions'', ''sentiment'', ''themes''} \<Longrightarrow>
   prompts_lookup ct k = Inl (KeyError k)"
  by (simp add: prompts_lookup_def prompts_def)

text \<open>
  Claim C9. For a non-empty sequence and one of the four modes, \<open>analyze_with_claude\<close>
  sends one request and returns a string whatever the service does (it never raises);
  when the service raises \<open>e\<close> on that request, the string returned is the error text
  built from \<open>str(e)\<close>.
\<close>

theorem remote_failure_returned_as_text:
  assumes "msgs \<noteq> []"
    and "analysis_type \<in> {''comprehensive'', ''questions'', ''sentiment'', ''themes''}"
  shows "\<exists>req. sent (analyze_with_claude create msgs analysis_type) = [req] \<and>
           (\<exists>s. outcome (analyze_with_claude create msgs analysis_type) = Inr s) \<and>
           (\<forall>e. create req = Inl e \<longrightarrow>
              outcome (analyze_with_claude create msgs analysis_type) =
                Inr (''Error analyzing chat with Claude: '' @ exn_str e))"
proof -
  obtain p where p: "prompts_lookup (chat_text_of msgs) analysis_type = Inr p"
    using prompts_lookup_valid [OF assms(2)] by blast
  show ?thesis
    using assms(1) p
    by (cases "create (completion_request_of p)")
       (auto simp: analyze_with_claude_def try_except_def py_index_def)
qed

theorem remote_failure_returned_as_text_witness:
  "outcome (analyze_with_claude (\<lambda>req. Inl (Failure ''overloaded''))
              [example_message ''Ann'' ''UC1'' ''hello''] ''themes'') =
     Inr ''Error analyzing chat with Claude: overloaded''"
  using remote_failure_returned_as_text
    [of "[example_message ''Ann'' ''UC1'' ''hello'']" "''themes''" "\<lambda>req. Inl (Failure ''overloaded'')"]
  by auto

text \<open>
  Claim C10. For a non-empty sequence and a mode outside the four tags, the KeyError of
  the dictionary lookup is caught by the same handler: the error text with the \<open>repr\<close> of
  the mode is returned, and no request is sent to the completion service.
\<close>

theorem unknown_analysis_type_returned_as_text:
  assumes "msgs \<noteq> []"
    and "analysis_type \<notin> {''comprehensive'', ''questions'', ''sentiment'', ''themes''}"
  shows "outcome (analyze_with_claude create msgs analysis_type) =
           Inr (''Error analyzing chat with Claude: '' @ py_repr analysis_type) \<and>
         sent (analyze_with_claude create msgs analysis_type) = []"
  using assms(1) prompts_lookup_invalid [OF assms(2)]
  by (simp add: analyze_with_claude_def try_except_def)

lemma repr_summary: "py_repr ''summary'' = [CHR 0x27] @ ''summary'' @ [CHR 0x27]"
  by (simp add: py_repr_def repr_char_def Let_def)

theorem unknown_analysis_type_returned_as_text_witness:
  "outcome (analyze_with_claude (\<lambda>req. Inr [''fine''])
              [example_message ''Ann'' ''UC1'' ''hello''] ''summary'') =
     Inr (''Error analyzing chat with Claude: '' @ [CHR 0x27] @ ''summary'' @ [CHR 0x27]) \<and>
   sent (analyze_with_claude (\<lambda>req. Inr [''fine''])
           [example_message ''Ann'' ''UC1'' ''hello''] ''summary'') = []"
  using unknown_analysis_type_returned_as_text
    [of "[example_message ''Ann'' ''UC1'' ''hello'']" "''summary''" "\<lambda>req. Inr [''fine'']"]
  by (simp add: repr_summary)

subsection \<open>Source C: timestamps\<close>

lemma enumerate_index_sorted:
  "sorted_wrt (\<lambda>p q. fst p < fst q) (enumerate n xs)"
proof (induction xs arbitrary: n)
  case Nil
  then show ?case by simp
next
  case (Cons x xs)
  have "\<forall>q \<in> set (enumerate (Suc n) xs). n < fst q"
    by (auto simp: in_set_enumerate_eq)
  with Cons show ?case by simp
qed

lemma enumerate_index_bound:
  "p \<in> set (enumerate 0 xs) \<Longrightarrow> fst p < length xs"
  by (auto simp: in_set_enumerate_eq)

lemma instants_manual:
  "instants (map (\<lambda>(j, l). manual_message_data py_hash now n j (f j l) (g j l)) ps) =
     map (\<lambda>(j, l). now j - minutes (int n - int j)) ps"
  by (induction ps) (auto simp: instants_def manual_message_data_def)

text \<open>
  Claim C8 fails as stated, even for a clock that stands still at 600000000: on three
  lines of which the middle one is blank, the two records are stamped three minutes and
  one minute before the clock reading, so they are two minutes apart and the last one is
  not at the reading.
\<close>

theorem manual_timestamps_counterexample:
  "(case collect_chat_manual_input (\<lambda>a. 0) (\<lambda>i. 600000000) True
           ''Ann: hi\<newline>\<newline>Bob: yo'' of
      Inl e \<Rightarrow> []
    | Inr rs \<Rightarrow> instants rs) = [420000000, 540000000]"
  by code_simp

text \<open>
  Claim C8, amended. The record of line \<open>i\<close> of \<open>n\<close> lines is stamped \<open>n - i\<close> minutes
  before the clock reading taken for it, in line order. For a clock that does not run
  backwards, any two emitted records are at least one minute apart in that order (so
  the timestamps increase strictly), and every timestamp is at least one minute before
  the reading of the last line.
\<close>

theorem manual_timestamps:
  assumes mono: "\<forall>i j. i \<le> j \<longrightarrow> now i \<le> now j"
  shows "\<exists>rs. collect_chat_manual_input py_hash now True chat_input = Inr rs \<and>
           length (instants rs) = length rs \<and>
           instants rs =
             map (\<lambda>(i, l). now i - minutes (int (length (manual_lines chat_input)) - int i))
               (filter (\<lambda>(i, l). snd (spec_parse_line i l) \<noteq> [])
                  (enumerate 0 (manual_lines chat_input))) \<and>
           sorted_wrt (\<lambda>s t. s + minutes 1 \<le> t) (instants rs) \<and>
           (\<forall>t \<in> set (instants rs).
              t + minutes 1 \<le> now (length (manual_lines chat_input) - 1))"
proof -
  let ?ls = "manual_lines chat_input"
  let ?n = "length ?ls"
  let ?ps = "filter (\<lambda>(i, l). snd (spec_parse_line i l) \<noteq> []) (enumerate 0 ?ls)"
  let ?rs = "map (\<lambda>(j, l). manual_message_data py_hash now ?n j
                       (fst (spec_parse_line j l)) (snd (spec_parse_line j l))) ?ps"
  have run: "collect_chat_manual_input py_hash now True chat_input = Inr ?rs"
    by (rule collect_chat_manual_input_eq)
  have inst: "instants ?rs = map (\<lambda>(i, l). now i - minutes (int ?n - int i)) ?ps"
    by (rule instants_manual)
  have idx: "sorted_wrt (\<lambda>p q. fst p < fst q) ?ps"
    by (rule sorted_wrt_filter) (rule enumerate_index_sorted)
  have bound: "fst p < ?n" if "p \<in> set ?ps" for p
    using that enumerate_index_bound [of p ?ls] by simp
  have step: "now (fst p) - minutes (int ?n - int (fst p)) + minutes 1
                \<le> now (fst q) - minutes (int ?n - int (fst q))"
    if "fst p < fst q" for p q :: "nat \<times> string"
  proof -
    have "now (fst p) \<le> now (fst q)"
      using mono that by simp
    with that show ?thesis
      by (simp add: minutes_def)
  qed
  have "sorted_wrt (\<lambda>p q. now (fst p) - minutes (int ?n - int (fst p)) + minutes 1
                \<le> now (fst q) - minutes (int ?n - int (fst q))) ?ps"
    using idx step by (rule_tac sorted_wrt_mono_rel [of ?ps "\<lambda>p q. fst p < fst q"]) auto
  then have spaced: "sorted_wrt (\<lambda>s t. s + minutes 1 \<le> t) (instants ?rs)"
    by (simp add: inst sorted_wrt_map case_prod_beta)
  have last: "t + minutes 1 \<le> now (?n - 1)" if "t \<in> set (instants ?rs)" for t
  proof -
    from that obtain p where p: "p \<in> set ?ps"
      and t: "t = now (fst p) - minutes (int ?n - int (fst p))"
      by (auto simp: inst)
    have "fst p \<le> ?n - 1"
      using bound [OF p] by simp
    then have "now (fst p) \<le> now (?n - 1)"
      using mono by simp
    moreover have "int ?n - int (fst p) \<ge> 1"
      using bound [OF p] by simp
    ultimately show ?thesis
      by (simp add: t minutes_def)
  qed
  have len: "length (instants ?rs) = length ?rs"
    by (simp add: inst)
  show ?thesis
    using run len inst spaced last by blast
qed

text \<open>The amended claim at a clock that advances with each line.\<close>

theorem manual_timestamps_witness:
  "\<exists>rs. collect_chat_manual_input (\<lambda>a. 0) (\<lambda>i. 600000000 + int i) True
          ''Ann: hi\<newline>\<newline>Bob: yo'' = Inr rs \<and>
        sorted_wrt (\<lambda>s t. s + minutes 1 \<le> t) (instants rs)"
  using manual_timestamps [of "\<lambda>i. 600000000 + int i" "\<lambda>a. 0" "''Ann: hi\<newline>\<newline>Bob: yo''"]
  by auto

subsection \<open>Sources A and B: the loops\<close>

lemma simulate_loop_eq:
  "simulate_loop rnd base_time is acc = acc @ map (\<lambda>i. simulated_message_data base_time (rnd i)) is"
  by (induction "is" arbitrary: acc) auto

lemma simulate_chat_data_eq:
  "simulate_chat_data rnd base_time n =
     map (\<lambda>i. simulated_message_data base_time (rnd i)) [0..<nat n]"
  by (simp add: simulate_chat_data_def simulate_loop_eq)

lemma random_choice_mem: "xs \<noteq> [] \<Longrightarrow> random_choice xs d \<in> set xs"
  by (simp add: random_choice_def)

lemma sample_messages_nonempty: "\<forall>s \<in> set sample_messages. s \<noteq> []"
  by (simp add: sample_messages_def)

lemma sample_messages_length: "length sample_messages = 30" "length sample_users = 10"
  by (simp_all add: sample_messages_def sample_users_def)

lemma simulated_message_nonempty: "message (simulated_message_data base_time d) \<noteq> []"
proof -
  have "sample_messages \<noteq> []"
    by (simp add: sample_messages_def)
  then have "random_choice sample_messages (message_draw d) \<in> set sample_messages"
    by (rule random_choice_mem)
  then show ?thesis
    using sample_messages_nonempty by (simp add: simulated_message_data_def)
qed

lemma append_items_result:
  "append_items its acc = (ms, e) \<Longrightarrow>
   \<exists>new. ms = acc @ new \<and> length new \<le> length its \<and> (e = None \<longrightarrow> length new = length its)"
proof (induction its arbitrary: acc)
  case Nil
  then show ?case by simp
next
  case (Cons item rest)
  show ?case
  proof (cases "item_message_data item")
    case (Inl x)
    with Cons.prems show ?thesis by auto
  next
    case (Inr m)
    with Cons.prems have "append_items rest (acc @ [m]) = (ms, e)"
      by simp
    from Cons.IH [OF this] obtain new where
      "ms = (acc @ [m]) @ new" "length new \<le> length rest" "e = None \<longrightarrow> length new = length rest"
      by blast
    then have "ms = acc @ (m # new) \<and> length (m # new) \<le> length (item # rest) \<and>
        (e = None \<longrightarrow> length (m # new) = length (item # rest))"
      by simp
    then show ?thesis by blast
  qed
qed

lemma append_items_complete:
  "\<forall>i \<in> set its. snippet i \<noteq> None \<and> authorDetails i \<noteq> None \<Longrightarrow>
   append_items its acc = (acc @ map (\<lambda>i. projr (item_message_data i)) its, None)"
  by (induction its arbitrary: acc) (auto simp: item_message_data_def)

lemma get_live_chat_id_example:
  "api_key \<noteq> [] \<Longrightarrow> get_live_chat_id (Some api_key) example_videos video_id = ([], Some ''chat1'')"
  by (simp add: get_live_chat_id_def example_videos_def truthy_def dict_get_def)

lemma collect_example_videos:
  "api_key \<noteq> [] \<Longrightarrow>
   collect_chat_with_api (Some api_key) example_videos live_chat video_id n =
     (case page_loop live_chat ''chat1'' api_key n
             \<lparr>messages = [], next_page_token = None, requests = 0, raised = None\<rparr> of
        None \<Rightarrow> None
      | Some st \<Rightarrow>
          Some \<lparr>collected = messages st,
                errors = (case raised st of None \<Rightarrow> []
                          | Some e \<Rightarrow> [''Error collecting chat: '' @ exn_str e]),
                page_requests = requests st\<rparr>)"
  by (simp add: collect_chat_with_api_def get_live_chat_id_example truthy_def cong: option.case_cong)

text \<open>
  Claim C6 fails as stated for the API source: an item without \<open>displayMessage\<close> is
  emitted as a record whose text is empty.
\<close>

theorem api_empty_text_counterexample:
  "map_option (\<lambda>r. map message (collected r))
     (collect_chat_with_api (Some ''key'') example_videos (one_page [silent_item]) ''video'' 1) =
   Some [[]]"
  apply (simp add: collect_example_videos)
  apply (subst page_loop.simps)
  apply (simp add: one_page_def silent_item_def item_message_data_def dict_get_def truthy_def)
  done

text \<open>
  Claim C2 fails as stated for the API source: the loop appends every item of a page, so
  a page of three items answering a request for one yields three records for \<open>N = 1\<close>.
\<close>

theorem api_overshoot_counterexample:
  "map_option (\<lambda>r. length (collected r))
     (collect_chat_with_api (Some ''key'') example_videos
        (one_page [mock_item 0, mock_item 1, mock_item 2]) ''video'' 1) =
   Some 3"
  apply (simp add: collect_example_videos)
  apply (subst page_loop.simps)
  apply (simp add: one_page_def mock_item_def item_message_data_def dict_get_def truthy_def)
  done

lemma page_loop_bound_aux:
  assumes run: "page_loop live_chat chat_id api_key n st = Some st'"
  shows "honours_maxResults live_chat \<longrightarrow> int (length (messages st)) \<le> n \<longrightarrow>
         int (length (messages st')) \<le> n"
proof (rule page_loop.raw_induct
    [where P = "\<lambda>live_chat chat_id api_key n st st'.
        honours_maxResults live_chat \<longrightarrow> int (length (messages st)) \<le> n \<longrightarrow>
        int (length (messages st')) \<le> n", OF _ run], goal_cases)
  case (1 loop live_chat chat_id api_key n st st')
  note IH = 1(1) and body = 1(2)
  let ?req = "\<lparr>liveChatId = chat_id, part = ''snippet,authorDetails'', key = api_key,
                maxResults = min 200 (n - int (length (messages st))),
                pageToken = if truthy (next_page_token st) then next_page_token st else None\<rparr>"
  show ?case
  proof (intro impI)
    assume hon: "honours_maxResults live_chat"
      and start: "int (length (messages st)) \<le> n"
    show "int (length (messages st')) \<le> n"
    proof (cases "int (length (messages st)) < n")
      case False
      with start body show ?thesis by simp
    next
      case more: True
      show ?thesis
      proof (cases "live_chat (requests st) ?req")
        case (Inl e)
        with more body start show ?thesis by auto
      next
        case (Inr data)
        show ?thesis
        proof (cases "items data")
          case None
          with more Inr body start show ?thesis by auto
        next
          case (Some its)
          obtain ms e where app: "append_items its (messages st) = (ms, e)"
            by (cases "append_items its (messages st)")
          from append_items_result [OF app] obtain new where
            new: "ms = messages st @ new" "length new \<le> length its"
            by blast
          have "int (length its) \<le> max 0 (maxResults ?req)"
            using hon Inr Some unfolding honours_maxResults_def by blast
          with new more have fits: "int (length ms) \<le> n"
            by simp
          show ?thesis
          proof (cases e)
            case None
            show ?thesis
            proof (cases "truthy (nextPageToken data)")
              case True
              with more Inr Some app None body
              have "loop live_chat chat_id api_key n
                      (st\<lparr>messages := ms, next_page_token := nextPageToken data,
                          requests := Suc (requests st)\<rparr>) = Some st'"
                by simp
              from IH [OF this] hon fits show ?thesis
                by simp
            next
              case False
              with more Inr Some app None body fits show ?thesis
                by auto
            qed
          next
            case (Some x)
            with more Inr \<open>items data = Some its\<close> app body fits show ?thesis
              by auto
          qed
        qed
      qed
    qed
  qed
qed

lemma page_loop_bound:
  "page_loop live_chat chat_id api_key n st = Some st' \<Longrightarrow>
   honours_maxResults live_chat \<Longrightarrow>
   int (length (messages st)) \<le> n \<Longrightarrow>
   int (length (messages st')) \<le> n"
  using page_loop_bound_aux by blast

lemma page_loop_returns:
  assumes "no_empty_page_with_token live_chat"
  shows "\<exists>st'. page_loop live_chat chat_id api_key n st = Some st'"
proof (induction "nat (n - int (length (messages st)))" arbitrary: st rule: less_induct)
  case less
  let ?req = "\<lparr>liveChatId = chat_id, part = ''snippet,authorDetails'', key = api_key,
                maxResults = min 200 (n - int (length (messages st))),
                pageToken = if truthy (next_page_token st) then next_page_token st else None\<rparr>"
  show ?case
  proof (cases "int (length (messages st)) < n")
    case False
    then show ?thesis
      by (subst page_loop.simps) simp
  next
    case more: True
    show ?thesis
    proof (cases "live_chat (requests st) ?req")
      case (Inl e)
      with more show ?thesis
        by (subst page_loop.simps) simp
    next
      case (Inr data)
      show ?thesis
      proof (cases "items data")
        case None
        with more Inr show ?thesis
          by (subst page_loop.simps) simp
      next
        case (Some its)
        obtain ms e where app: "append_items its (messages st) = (ms, e)"
          by (cases "append_items its (messages st)")
        from append_items_result [OF app] obtain new where
          new: "ms = messages st @ new" "e = None \<longrightarrow> length new = length its"
          by blast
        show ?thesis
        proof (cases "e = None \<and> truthy (nextPageToken data)")
          case False
          with more Inr Some app show ?thesis
            by (subst page_loop.simps) (cases e; simp)
        next
          case True
          let ?st = "st\<lparr>messages := ms, next_page_token := nextPageToken data,
                        requests := Suc (requests st)\<rparr>"
          have "1 \<le> maxResults ?req"
            using more by simp
          then have "its \<noteq> []"
            using assms Inr Some True unfolding no_empty_page_with_token_def by blast
          with new True have "length (messages st) < length ms"
            by simp
          with more have "nat (n - int (length (messages ?st))) < nat (n - int (length (messages st)))"
            by simp
          from less [OF this] obtain st' where
            "page_loop live_chat chat_id api_key n ?st = Some st'"
            by blast
          with more Inr Some app True show ?thesis
            by (subst page_loop.simps) simp
        qed
      qed
    qed
  qed
qed

subsection \<open>The mocked page sources\<close>

lemma mock_item_complete: "\<forall>i \<in> set (map mock_item ks). snippet i \<noteq> None \<and> authorDetails i \<noteq> None"
  by (simp add: mock_item_def)

lemma capped_page_source_honours: "honours_maxResults (capped_page_source stock)"
  by (auto simp: honours_maxResults_def capped_page_source_def paged_source_def Let_def)

lemma capped_page_source_progress: "no_empty_page_with_token (capped_page_source stock)"
  by (auto simp: no_empty_page_with_token_def capped_page_source_def paged_source_def Let_def
      truthy_def split: if_splits)

lemma paged_step:
  assumes len: "length (messages st) = m"
    and more: "int m < n"
    and tok: "next_page_token st = (if m = 0 then None else Some (mock_token m))"
    and le: "m \<le> stock"
    and full: "0 < page_size (min 200 (n - int m))"
  shows "\<exists>st1. length (messages st1) = m + min (page_size (min 200 (n - int m))) (stock - m) \<and>
           requests st1 = Suc (requests st) \<and> raised st1 = raised st \<and>
           next_page_token st1 =
             (if m + min (page_size (min 200 (n - int m))) (stock - m) < stock
              then Some (mock_token (m + min (page_size (min 200 (n - int m))) (stock - m)))
              else None) \<and>
           page_loop (paged_source page_size stock) chat_id api_key n st =
             (if m + min (page_size (min 200 (n - int m))) (stock - m) < stock
              then page_loop (paged_source page_size stock) chat_id api_key n st1 else Some st1)"
proof -
  define size where "size = min (page_size (min 200 (n - int m))) (stock - m)"
  define its where "its = map mock_item [m..<m + size]"
  define token where "token = (if m + size < stock then Some (mock_token (m + size)) else None)"
  define st1 where "st1 = st\<lparr>messages := messages st @ map (\<lambda>i. projr (item_message_data i)) its,
                              next_page_token := token, requests := Suc (requests st)\<rparr>"
  let ?req = "\<lparr>liveChatId = chat_id, part = ''snippet,authorDetails'', key = api_key,
                maxResults = min 200 (n - int (length (messages st))),
                pageToken = if truthy (next_page_token st) then next_page_token st else None\<rparr>"
  have start: "(case pageToken ?req of None \<Rightarrow> 0 | Some t \<Rightarrow> length t) = m"
    using tok by (simp add: truthy_def mock_token_def)
  have asked: "maxResults ?req = min 200 (n - int m)"
    using len by simp
  have page: "paged_source page_size stock (requests st) ?req =
      Inr \<lparr>items = Some its, nextPageToken = token\<rparr>"
    by (simp only: paged_source_def Let_def start asked its_def token_def size_def)
  have app: "append_items its (messages st) =
      (messages st @ map (\<lambda>i. projr (item_message_data i)) its, None)"
    unfolding its_def by (rule append_items_complete) (rule mock_item_complete)
  have pos: "0 < m + size" if "m + size < stock"
    using that full unfolding size_def by simp
  have truthy: "truthy token \<longleftrightarrow> m + size < stock"
    using pos by (auto simp: token_def truthy_def mock_token_def)
  have loop: "page_loop (paged_source page_size stock) chat_id api_key n st =
      (if m + size < stock then page_loop (paged_source page_size stock) chat_id api_key n st1
       else Some st1)"
    apply (subst page_loop.simps)
    apply (simp only: page)
    apply (simp add: more len app truthy st1_def)
    done
  have "length (messages st1) = m + size"
    by (simp add: st1_def its_def len)
  moreover have "requests st1 = Suc (requests st)" "raised st1 = raised st"
    "next_page_token st1 = token"
    by (simp_all add: st1_def)
  ultimately show ?thesis
    using loop unfolding token_def size_def by blast
qed

lemma capped_step:
  assumes len: "length (messages st) = m"
    and more: "int m < n"
    and tok: "next_page_token st = (if m = 0 then None else Some (mock_token m))"
    and le: "m \<le> stock"
  shows "\<exists>st1. length (messages st1) = m + min (min 200 (nat (n - int m))) (stock - m) \<and>
           requests st1 = Suc (requests st) \<and> raised st1 = raised st \<and>
           next_page_token st1 =
             (if m + min (min 200 (nat (n - int m))) (stock - m) < stock
              then Some (mock_token (m + min (min 200 (nat (n - int m))) (stock - m))) else None) \<and>
           page_loop (capped_page_source stock) chat_id api_key n st =
             (if m + min (min 200 (nat (n - int m))) (stock - m) < stock
              then page_loop (capped_page_source stock) chat_id api_key n st1 else Some st1)"
proof -
  have size: "min 200 (nat (min 200 (n - int m))) = min 200 (nat (n - int m))"
    by simp
  have "0 < min 200 (nat (min 200 (n - int m)))"
    using more by simp
  from paged_step [of st m n stock "\<lambda>max_results. min 200 (nat max_results)" chat_id api_key,
      OF len more tok le this]
  show ?thesis
    unfolding capped_page_source_def size .
qed

lemma fixed_step:
  assumes len: "length (messages st) = m"
    and more: "int m < n"
    and tok: "next_page_token st = (if m = 0 then None else Some (mock_token m))"
    and le: "m \<le> stock"
  shows "\<exists>st1. length (messages st1) = m + min 200 (stock - m) \<and>
           requests st1 = Suc (requests st) \<and> raised st1 = raised st \<and>
           next_page_token st1 =
             (if m + min 200 (stock - m) < stock
              then Some (mock_token (m + min 200 (stock - m))) else None) \<and>
           page_loop (fixed_page_source stock) chat_id api_key n st =
             (if m + min 200 (stock - m) < stock
              then page_loop (fixed_page_source stock) chat_id api_key n st1 else Some st1)"
proof -
  have "0 < (200 :: nat)"
    by simp
  from paged_step [of st m n stock "\<lambda>max_results. 200" chat_id api_key, OF len more tok le this]
  show ?thesis
    unfolding fixed_page_source_def .
qed

lemma page_loop_done:
  "\<not> int (length (messages st)) < n \<Longrightarrow> page_loop live_chat chat_id api_key n st = Some st"
  by (subst page_loop.simps) simp

lemma capped_loop:
  assumes "length (messages st) = m" and "m \<le> stock" and "int m \<le> n"
    and "next_page_token st = (if m = 0 then None else Some (mock_token m))"
    and "m = 0 \<or> m < stock" and "raised st = None"
  shows "\<exists>st'. page_loop (capped_page_source stock) chat_id api_key n st = Some st' \<and>
           length (messages st') = min (nat n) stock \<and> raised st' = None"
  using assms
proof (induction "nat n - m" arbitrary: st m rule: less_induct)
  case less
  show ?case
  proof (cases "int m < n")
    case False
    with less.prems have "page_loop (capped_page_source stock) chat_id api_key n st = Some st"
      by (intro page_loop_done) simp
    with False less.prems show ?thesis by auto
  next
    case True
    define m' where "m' = m + min (min 200 (nat (n - int m))) (stock - m)"
    from capped_step [OF less.prems(1) True less.prems(4) less.prems(2)]
    obtain st1 where st1: "length (messages st1) = m'"
      "raised st1 = raised st"
      "next_page_token st1 = (if m' < stock then Some (mock_token m') else None)"
      "page_loop (capped_page_source stock) chat_id api_key n st =
         (if m' < stock then page_loop (capped_page_source stock) chat_id api_key n st1
          else Some st1)"
      unfolding m'_def by blast
    have bounds: "m' \<le> stock" "int m' \<le> n"
      using True less.prems unfolding m'_def by auto
    show ?thesis
    proof (cases "m' < stock")
      case False
      with bounds have "m' = min (nat n) stock"
        by auto
      with False st1 less.prems show ?thesis by simp
    next
      case next_page: True
      with True less.prems have grow: "m < m'"
        unfolding m'_def by auto
      have "nat n - m' < nat n - m"
        using True grow by auto
      moreover have "next_page_token st1 = (if m' = 0 then None else Some (mock_token m'))"
        using st1(3) next_page grow by simp
      moreover have "m' = 0 \<or> m' < stock"
        using next_page by blast
      moreover have "raised st1 = None"
        using st1(2) less.prems by simp
      ultimately obtain st' where
        "page_loop (capped_page_source stock) chat_id api_key n st1 = Some st'"
        "length (messages st') = min (nat n) stock" "raised st' = None"
        using less.hyps [of m' st1] st1(1) bounds by blast
      with st1(4) next_page show ?thesis by simp
    qed
  qed
qed

lemma capped_350:
  assumes "350 \<le> stock"
  shows "\<exists>st'. page_loop (capped_page_source stock) chat_id api_key 350
                 \<lparr>messages = [], next_page_token = None, requests = 0, raised = None\<rparr> = Some st' \<and>
           length (messages st') = 350 \<and> requests st' = 2 \<and> raised st' = None"
proof -
  let ?st0 = "\<lparr>messages = [], next_page_token = None, requests = 0, raised = None\<rparr>"
  let ?loop = "page_loop (capped_page_source stock) chat_id api_key 350"
  have s0: "min (min 200 (nat (350 - int 0))) (stock - 0) = 200"
    using assms by simp
  have "\<exists>st1. length (messages st1) = 200 \<and> requests st1 = 1 \<and> raised st1 = None \<and>
    next_page_token st1 = Some (mock_token 200) \<and> ?loop ?st0 = ?loop st1"
    using capped_step [of "?st0" 0 350 stock chat_id api_key] assms unfolding s0 by auto
  then obtain st1 where st1: "length (messages st1) = 200" "requests st1 = 1" "raised st1 = None"
    "next_page_token st1 = Some (mock_token 200)" "?loop ?st0 = ?loop st1"
    by blast
  have s1: "min (min 200 (nat (350 - int 200))) (stock - 200) = 150"
    using assms by simp
  have "\<exists>st2. length (messages st2) = 350 \<and> requests st2 = 2 \<and> raised st2 = None \<and>
    ?loop st1 = (if 350 < stock then ?loop st2 else Some st2)"
    using capped_step [of st1 200 350 stock chat_id api_key] st1 assms unfolding s1 by auto
  then obtain st2 where st2: "length (messages st2) = 350" "requests st2 = 2" "raised st2 = None"
    "?loop st1 = (if 350 < stock then ?loop st2 else Some st2)"
    by blast
  have "?loop st2 = Some st2"
    using st2(1) by (intro page_loop_done) simp
  with st1(5) st2 show ?thesis by auto
qed

lemma fixed_loop:
  assumes "length (messages st) = m" and "m \<le> stock" and "int stock \<le> n"
    and "next_page_token st = (if m = 0 then None else Some (mock_token m))"
    and "m = 0 \<or> m < stock" and "raised st = None"
  shows "\<exists>st'. page_loop (fixed_page_source stock) chat_id api_key n st = Some st' \<and>
           length (messages st') = stock \<and> raised st' = None"
  using assms
proof (induction "stock - m" arbitrary: st m rule: less_induct)
  case less
  show ?case
  proof (cases "int m < n")
    case False
    with less.prems have "page_loop (fixed_page_source stock) chat_id api_key n st = Some st"
      by (intro page_loop_done) simp
    with False less.prems show ?thesis by auto
  next
    case True
    define m' where "m' = m + min 200 (stock - m)"
    from fixed_step [OF less.prems(1) True less.prems(4) less.prems(2)]
    obtain st1 where st1: "length (messages st1) = m'"
      "raised st1 = raised st"
      "next_page_token st1 = (if m' < stock then Some (mock_token m') else None)"
      "page_loop (fixed_page_source stock) chat_id api_key n st =
         (if m' < stock then page_loop (fixed_page_source stock) chat_id api_key n st1
          else Some st1)"
      unfolding m'_def by blast
    have bound: "m' \<le> stock"
      using less.prems unfolding m'_def by auto
    show ?thesis
    proof (cases "m' < stock")
      case False
      with bound have "m' = stock"
        by simp
      with False st1 less.prems show ?thesis by simp
    next
      case next_page: True
      then have grow: "m < m'"
        unfolding m'_def by auto
      have "stock - m' < stock - m"
        using next_page grow by auto
      moreover have "next_page_token st1 = (if m' = 0 then None else Some (mock_token m'))"
        using st1(3) next_page grow by simp
      moreover have "m' = 0 \<or> m' < stock"
        using next_page by blast
      moreover have "raised st1 = None"
        using st1(2) less.prems by simp
      ultimately obtain st' where
        "page_loop (fixed_page_source stock) chat_id api_key n st1 = Some st'"
        "length (messages st') = stock" "raised st' = None"
        using less.hyps [of m' st1] st1(1) bound less.prems(3) by blast
      with st1(4) next_page show ?thesis by simp
    qed
  qed
qed

lemma fixed_350:
  assumes "200 < stock"
  shows "\<exists>st'. page_loop (fixed_page_source stock) chat_id api_key 350
                 \<lparr>messages = [], next_page_token = None, requests = 0, raised = None\<rparr> = Some st' \<and>
           length (messages st') = min stock 400 \<and> requests st' = 2 \<and> raised st' = None"
proof -
  let ?st0 = "\<lparr>messages = [], next_page_token = None, requests = 0, raised = None\<rparr>"
  let ?loop = "page_loop (fixed_page_source stock) chat_id api_key 350"
  have s0: "0 + min 200 (stock - 0) = 200"
    using assms by simp
  have "\<exists>st1. length (messages st1) = 200 \<and> requests st1 = 1 \<and> raised st1 = None \<and>
    next_page_token st1 = Some (mock_token 200) \<and> ?loop ?st0 = ?loop st1"
    using fixed_step [of "?st0" 0 350 stock chat_id api_key] assms unfolding s0 by auto
  then obtain st1 where st1: "length (messages st1) = 200" "requests st1 = 1" "raised st1 = None"
    "next_page_token st1 = Some (mock_token 200)" "?loop ?st0 = ?loop st1"
    by blast
  define m2 where "m2 = 200 + min 200 (stock - 200)"
  have m2: "m2 = min stock 400"
    using assms unfolding m2_def by auto
  have "int 200 < 350" and "(200 :: nat) \<le> stock"
    and "next_page_token st1 = (if (200 :: nat) = 0 then None else Some (mock_token 200))"
    using assms st1(4) by simp_all
  from fixed_step [OF st1(1) this(1) this(3) this(2), of chat_id api_key]
  obtain st2 where "length (messages st2) = m2" "requests st2 = Suc (requests st1)"
    "raised st2 = raised st1" "?loop st1 = (if m2 < stock then ?loop st2 else Some st2)"
    unfolding m2_def by blast
  with st1 have st2: "length (messages st2) = m2" "requests st2 = 2" "raised st2 = None"
    "?loop st1 = (if m2 < stock then ?loop st2 else Some st2)"
    by simp_all
  have "?loop st2 = Some st2" if "m2 < stock"
    using that st2(1) m2 by (intro page_loop_done) simp
  with st1(5) st2 m2 show ?thesis by auto
qed

subsection \<open>Lengths and texts of the collected sequences\<close>

lemma collect_chat_manual_input_not_submitted:
  "collect_chat_manual_input py_hash now False chat_input = Inr []"
  by (simp add: collect_chat_manual_input_def)

lemma manual_length:
  "\<exists>rs. collect_chat_manual_input py_hash now submitted chat_input = Inr rs \<and>
        length rs \<le> length (manual_lines chat_input)"
proof (cases submitted)
  case True
  have "length (filter P (enumerate 0 xs)) \<le> length xs" for P and xs :: "string list"
    using length_filter_le [of P "enumerate 0 xs"] by simp
  with True show ?thesis
    by (simp add: collect_chat_manual_input_eq)
next
  case False
  then show ?thesis
    by (simp add: collect_chat_manual_input_not_submitted)
qed

lemma manual_text_nonempty:
  "\<exists>rs. collect_chat_manual_input py_hash now submitted chat_input = Inr rs \<and>
        (\<forall>m \<in> set rs. message m \<noteq> [])"
proof (cases submitted)
  case True
  then show ?thesis
    by (auto simp: collect_chat_manual_input_eq manual_message_data_def)
next
  case False
  then show ?thesis
    by (simp add: collect_chat_manual_input_not_submitted)
qed

lemma collect_chat_with_api_bound:
  assumes "honours_maxResults live_chat" and "0 \<le> n"
    and "collect_chat_with_api youtube_api_key videos live_chat video_id n = Some r"
  shows "int (length (collected r)) \<le> n"
proof (cases "truthy youtube_api_key \<and> truthy (snd (get_live_chat_id youtube_api_key videos video_id))")
  case False
  with assms(2,3) show ?thesis
    by (auto simp: collect_chat_with_api_def split: prod.splits if_splits)
next
  case True
  obtain shown chat_id where g: "get_live_chat_id youtube_api_key videos video_id = (shown, chat_id)"
    by (cases "get_live_chat_id youtube_api_key videos video_id")
  with True assms(3) obtain st where
    st: "page_loop live_chat (the chat_id) (the youtube_api_key) n
           \<lparr>messages = [], next_page_token = None, requests = 0, raised = None\<rparr> = Some st"
    and r: "collected r = messages st"
    by (auto simp: collect_chat_with_api_def split: option.splits)
  from page_loop_bound [OF st assms(1)] assms(2) r show ?thesis
    by simp
qed

lemma collect_chat_with_api_returns:
  assumes "no_empty_page_with_token live_chat"
  shows "\<exists>r. collect_chat_with_api youtube_api_key videos live_chat video_id n = Some r"
proof -
  obtain shown chat_id where g: "get_live_chat_id youtube_api_key videos video_id = (shown, chat_id)"
    by (cases "get_live_chat_id youtube_api_key videos video_id")
  obtain st where
    "page_loop live_chat (the chat_id) (the youtube_api_key) n
           \<lparr>messages = [], next_page_token = None, requests = 0, raised = None\<rparr> = Some st"
    using page_loop_returns [OF assms] by blast
  with g show ?thesis
    by (simp add: collect_chat_with_api_def)
qed

text \<open>
  Claim C2, amended. For every \<open>N \<ge> 0\<close>: the API collector returns at most \<open>N\<close> records
  whenever no page holds more items than the \<open>maxResults\<close> asked for, and it does return
  whenever no page with a continuation token is empty; the synthetic generator returns
  exactly \<open>N\<close> records; the manual parser returns at most one record per line.
\<close>

theorem collector_length_bounds:
  assumes "0 \<le> n"
  shows "(honours_maxResults live_chat \<longrightarrow>
           (\<forall>r. collect_chat_with_api youtube_api_key videos live_chat video_id n = Some r \<longrightarrow>
                int (length (collected r)) \<le> n)) \<and>
         (no_empty_page_with_token live_chat \<longrightarrow>
           (\<exists>r. collect_chat_with_api youtube_api_key videos live_chat video_id n = Some r)) \<and>
         int (length (simulate_chat_data rnd base_time n)) = n \<and>
         (\<exists>rs. collect_chat_manual_input py_hash now submitted chat_input = Inr rs \<and>
               length rs \<le> length (manual_lines chat_input))"
proof (intro conjI impI allI)
  fix r
  assume "honours_maxResults live_chat"
    and "collect_chat_with_api youtube_api_key videos live_chat video_id n = Some r"
  then show "int (length (collected r)) \<le> n"
    using assms by (intro collect_chat_with_api_bound)
next
  assume "no_empty_page_with_token live_chat"
  then show "\<exists>r. collect_chat_with_api youtube_api_key videos live_chat video_id n = Some r"
    by (rule collect_chat_with_api_returns)
next
  show "int (length (simulate_chat_data rnd base_time n)) = n"
    using assms by (simp add: simulate_chat_data_eq)
next
  show "\<exists>rs. collect_chat_manual_input py_hash now submitted chat_input = Inr rs \<and>
             length rs \<le> length (manual_lines chat_input)"
    by (rule manual_length)
qed

text \<open>
  The amended claim at \<open>N = 3\<close>, a page source of five messages that cuts its pages to
  \<open>maxResults\<close>, and one line.
\<close>

theorem collector_length_bounds_witness:
  "(\<exists>r. collect_chat_with_api (Some ''key'') example_videos (capped_page_source 5) ''video'' 3 = Some r \<and>
        int (length (collected r)) \<le> 3) \<and>
   int (length (simulate_chat_data
      (\<lambda>i. \<lparr>user_draw = i, message_draw = 7 * i, minutes_draw = i, channel_draw = 41 * i,
             moderator_roll = False, moderator_choice = 2 * i,
             verified_roll = True, verified_choice = 3 * i\<rparr>) 1000 3)) = 3 \<and>
   (\<exists>rs. collect_chat_manual_input (\<lambda>a. 0) (\<lambda>i. 1000) True ''Ann: hi'' = Inr rs \<and>
         length rs \<le> length (manual_lines ''Ann: hi''))"
  using collector_length_bounds [of 3 "capped_page_source 5" "Some ''key''" example_videos "''video''"
      "\<lambda>i. \<lparr>user_draw = i, message_draw = 7 * i, minutes_draw = i, channel_draw = 41 * i,
             moderator_roll = False, moderator_choice = 2 * i,
             verified_roll = True, verified_choice = 3 * i\<rparr>" 1000 "\<lambda>a. 0" "\<lambda>i. 1000" True "''Ann: hi''"]
    capped_page_source_honours [of 5] capped_page_source_progress [of 5]
  by auto

text \<open>
  Claim C3 fails as stated: against the mocked page source of 450 messages, whose pages
  are of size 200, the collector with \<open>N = 350\<close> appends both full pages and returns 400
  records after two page requests, not 350.
\<close>

theorem mocked_page_source_counterexample:
  "map_option (\<lambda>r. (length (collected r), page_requests r, errors r))
     (collect_chat_with_api (Some ''key'') example_videos (fixed_page_source 450) ''video'' 350) =
   Some (400, 2, [])"
proof -
  have "\<exists>st. page_loop (fixed_page_source 450) ''chat1'' ''key'' 350
       \<lparr>messages = [], next_page_token = None, requests = 0, raised = None\<rparr> = Some st \<and>
      length (messages st) = min 450 400 \<and> requests st = 2 \<and> raised st = None"
    by (rule fixed_350) simp
  then show ?thesis
    by (auto simp: collect_example_videos)
qed

text \<open>
  Claim C3, amended. Against the mocked page source (pages of size 200, a token on every
  page but the last) holding more than 200 and fewer than 1000 messages, the collector
  with \<open>N = 350\<close> returns after exactly two page requests with every item of the two
  pages, 400 records or all the messages of the source if these are fewer; with
  \<open>N = 1000\<close> it returns all the messages of the source, fewer than 1000. Against a source
  that cuts its pages to the \<open>maxResults\<close> asked for and holds at least 350 messages, it
  returns exactly 350 records after exactly two page requests for \<open>N = 350\<close>, and all
  the messages for \<open>N = 1000\<close>. No run shows an error.
\<close>

theorem mocked_page_source:
  assumes "200 < stock" and "stock < 1000" and "api_key \<noteq> []"
  shows "(\<exists>r. collect_chat_with_api (Some api_key) example_videos (fixed_page_source stock) video_id 350 = Some r \<and>
              length (collected r) = min stock 400 \<and> page_requests r = 2 \<and> errors r = []) \<and>
         (\<exists>r. collect_chat_with_api (Some api_key) example_videos (fixed_page_source stock) video_id 1000 = Some r \<and>
              length (collected r) = stock \<and> length (collected r) < 1000 \<and> errors r = []) \<and>
         (350 \<le> stock \<longrightarrow>
            (\<exists>r. collect_chat_with_api (Some api_key) example_videos (capped_page_source stock) video_id 350 = Some r \<and>
              length (collected r) = 350 \<and> page_requests r = 2 \<and> errors r = [])) \<and>
         (\<exists>r. collect_chat_with_api (Some api_key) example_videos (capped_page_source stock) video_id 1000 = Some r \<and>
              length (collected r) = stock \<and> length (collected r) < 1000 \<and> errors r = [])"
proof (intro conjI impI)
  from fixed_350 [OF assms(1)] obtain st where
    "page_loop (fixed_page_source stock) ''chat1'' api_key 350
       \<lparr>messages = [], next_page_token = None, requests = 0, raised = None\<rparr> = Some st"
    "length (messages st) = min stock 400" "requests st = 2" "raised st = None"
    by blast
  then show "\<exists>r. collect_chat_with_api (Some api_key) example_videos (fixed_page_source stock) video_id 350 = Some r \<and>
              length (collected r) = min stock 400 \<and> page_requests r = 2 \<and> errors r = []"
    using assms(3) by (simp add: collect_example_videos)
next
  have "\<exists>st. page_loop (fixed_page_source stock) ''chat1'' api_key 1000
       \<lparr>messages = [], next_page_token = None, requests = 0, raised = None\<rparr> = Some st \<and>
      length (messages st) = stock \<and> raised st = None"
    using assms(2) by (intro fixed_loop [where m = 0]) simp_all
  then show "\<exists>r. collect_chat_with_api (Some api_key) example_videos (fixed_page_source stock) video_id 1000 = Some r \<and>
              length (collected r) = stock \<and> length (collected r) < 1000 \<and> errors r = []"
    using assms(2,3) by (auto simp: collect_example_videos)
next
  assume "350 \<le> stock"
  from capped_350 [OF this] obtain st where
    "page_loop (capped_page_source stock) ''chat1'' api_key 350
       \<lparr>messages = [], next_page_token = None, requests = 0, raised = None\<rparr> = Some st"
    "length (messages st) = 350" "requests st = 2" "raised st = None"
    by blast
  then show "\<exists>r. collect_chat_with_api (Some api_key) example_videos (capped_page_source stock) video_id 350 = Some r \<and>
              length (collected r) = 350 \<and> page_requests r = 2 \<and> errors r = []"
    using assms(3) by (simp add: collect_example_videos)
next
  have "\<exists>st. page_loop (capped_page_source stock) ''chat1'' api_key 1000
       \<lparr>messages = [], next_page_token = None, requests = 0, raised = None\<rparr> = Some st \<and>
      length (messages st) = min (nat 1000) stock \<and> raised st = None"
    by (rule capped_loop [where m = 0]) simp_all
  then obtain st where
    "page_loop (capped_page_source stock) ''chat1'' api_key 1000
       \<lparr>messages = [], next_page_token = None, requests = 0, raised = None\<rparr> = Some st"
    "length (messages st) = stock" "raised st = None"
    using assms(2) by auto
  then show "\<exists>r. collect_chat_with_api (Some api_key) example_videos (capped_page_source stock) video_id 1000 = Some r \<and>
              length (collected r) = stock \<and> length (collected r) < 1000 \<and> errors r = []"
    using assms(2,3) by (simp add: collect_example_videos)
qed

text \<open>The amended claim at sources of 450 messages.\<close>

theorem mocked_page_source_witness:
  "(\<exists>r. collect_chat_with_api (Some ''key'') example_videos (fixed_page_source 450) ''video'' 350 = Some r \<and>
        length (collected r) = 400 \<and> page_requests r = 2 \<and> errors r = []) \<and>
   (\<exists>r. collect_chat_with_api (Some ''key'') example_videos (fixed_page_source 450) ''video'' 1000 = Some r \<and>
        length (collected r) = 450 \<and> length (collected r) < 1000 \<and> errors r = []) \<and>
   (\<exists>r. collect_chat_with_api (Some ''key'') example_videos (capped_page_source 450) ''video'' 350 = Some r \<and>
        length (collected r) = 350 \<and> page_requests r = 2 \<and> errors r = [])"
  using mocked_page_source [of 450 "''key''" "''video''"]
  by simp

text \<open>
  Claim C6, amended. Every record of the synthetic generator and of the manual parser
  has a non-empty text. The API source does not filter: an item with \<open>snippet\<close> and
  \<open>authorDetails\<close> becomes a record whose text is its \<open>displayMessage\<close>, or the empty
  string when that entry is absent, and a page that converts without exception adds one
  record per item.
\<close>

theorem emitted_text:
  "(\<forall>m \<in> set (simulate_chat_data rnd base_time n). message m \<noteq> []) \<and>
   (\<exists>rs. collect_chat_manual_input py_hash now submitted chat_input = Inr rs \<and>
         (\<forall>m \<in> set rs. message m \<noteq> [])) \<and>
   (\<forall>sn au. snippet item = Some sn \<longrightarrow> authorDetails item = Some au \<longrightarrow>
      (\<exists>m. item_message_data item = Inr m \<and> message m = dict_get (displayMessage sn) [])) \<and>
   (\<forall>ms. append_items its acc = (ms, None) \<longrightarrow> length ms = length acc + length its)"
proof (intro conjI)
  show "\<forall>m \<in> set (simulate_chat_data rnd base_time n). message m \<noteq> []"
    by (auto simp: simulate_chat_data_eq simulated_message_nonempty)
  show "\<exists>rs. collect_chat_manual_input py_hash now submitted chat_input = Inr rs \<and>
         (\<forall>m \<in> set rs. message m \<noteq> [])"
    by (rule manual_text_nonempty)
  show "\<forall>sn au. snippet item = Some sn \<longrightarrow> authorDetails item = Some au \<longrightarrow>
      (\<exists>m. item_message_data item = Inr m \<and> message m = dict_get (displayMessage sn) [])"
    by (simp add: item_message_data_def)
  show "\<forall>ms. append_items its acc = (ms, None) \<longrightarrow> length ms = length acc + length its"
    using append_items_result [of its acc] by fastforce
qed

text \<open>The amended claim at a two-line input and at the item without text.\<close>

theorem emitted_text_witness:
  "(\<exists>rs. collect_chat_manual_input (\<lambda>a. 0) (\<lambda>i. 1000) True ''Ann: hi\<newline>Bob:'' = Inr rs \<and>
         map message rs = [''hi'']) \<and>
   (\<exists>m. item_message_data silent_item = Inr m \<and> message m = [])"
proof -
  have run: "collect_chat_manual_input (\<lambda>a. 0) (\<lambda>i. 1000) True ''Ann: hi\<newline>Bob:'' =
      Inr [manual_message_data (\<lambda>a. 0) (\<lambda>i. 1000) 2 0 ''Ann'' ''hi'']"
    by code_simp
  have "snippet silent_item =
      Some \<lparr>displayMessage = None, publishedAt = Some ''2024-01-01T00:00:00Z'',
             snippet_type = Some ''newSponsorEvent''\<rparr>"
    and "authorDetails silent_item \<noteq> None"
    by (simp_all add: silent_item_def)
  then show ?thesis
    using emitted_text [of "\<lambda>i. \<lparr>user_draw = i, message_draw = i, minutes_draw = i, channel_draw = i,
             moderator_roll = False, moderator_choice = i,
             verified_roll = False, verified_choice = i\<rparr>" 0 0 "\<lambda>a. 0" "\<lambda>i. 1000" True "''Ann: hi\<newline>Bob:''"
        silent_item "[]" "[]"] run
    by (auto simp: manual_message_data_def dict_get_def)
qed

subsection \<open>Statistics: the top chatters\<close>





















end
